theory Spec2Isabelle
  imports
    Complex_Main
    "HOL-Library.Char_ord"
    "HOL-Library.List_Lexorder"
    "HOL-Library.Product_Lexorder"
    "HOL-Library.Multiset"
begin

section \<open>JavaScript values and containers\<close>

text \<open>
  A finite JavaScript number is modelled as a rational. Where the code tests a value with
  \<^verbatim>\<open>Number.isFinite\<close> (\<^verbatim>\<open>safeNum\<close>, \<^verbatim>\<open>isFiniteNumber\<close>, \<^verbatim>\<open>toNumber\<close>), the value
  is a \<open>rat option\<close>: \<open>None\<close> stands for \<^verbatim>\<open>undefined\<close>, \<^verbatim>\<open>NaN\<close> and the infinities, which
  the test rejects alike. The handlers are evaluated in exact arithmetic; where a property
  depends on the rounding of a quotient to a double, the rounding is a parameter \<open>fl\<close>.

  A number that has not been tested yet is a \<open>jsnumber\<close>: finite, infinite or \<^verbatim>\<open>NaN\<close>.
\<close>

datatype jsnumber = Finite rat | PosInfinity | NegInfinity | NaN

text \<open>\<^verbatim>\<open>Number.isFinite(n) ? n : undefined\<close>.\<close>

definition finite_part :: "jsnumber \<Rightarrow> rat option" where
  "finite_part n = (case n of Finite x \<Rightarrow> Some x | _ \<Rightarrow> None)"

text \<open>
  The value of a field of a parsed JSON body. A number of a JSON text is finite or, when
  its literal overflows, infinite. A field that the body does not have reads as
  \<^verbatim>\<open>undefined\<close>: \<open>None\<close> of a \<open>json option\<close>.
\<close>

datatype json =
  JNull
| JBool bool
| JNumber jsnumber
| JString string
| JArray "json list"
| JObject "(string \<times> json) list"

text \<open>
  \<^verbatim>\<open>Number(v)\<close>: \<^verbatim>\<open>undefined\<close> gives \<^verbatim>\<open>NaN\<close>, \<^verbatim>\<open>null\<close> and \<^verbatim>\<open>false\<close> give 0, \<^verbatim>\<open>true\<close>
  gives 1 and a number gives itself. The conversions of the engine for the other values
  are parameters of the model: \<open>StringToNumber\<close> reads a string as a numeric literal
  (the empty string as 0, a string that is no literal as \<^verbatim>\<open>NaN\<close>), and \<open>ObjectToNumber\<close>
  converts an array or an object through its \<^verbatim>\<open>valueOf\<close> and \<^verbatim>\<open>toString\<close> (the array
  \<^verbatim>\<open>[7]\<close> as 7, the object \<^verbatim>\<open>{}\<close> as \<^verbatim>\<open>NaN\<close>); this conversion throws a \<^verbatim>\<open>TypeError\<close>
  when neither method gives a primitive value, as for an object whose own \<^verbatim>\<open>toString\<close>
  property hides the inherited method.
\<close>

datatype error = TypeError

record builtins =
  StringToNumber :: "string \<Rightarrow> jsnumber"
  ObjectToNumber :: "json \<Rightarrow> error + jsnumber"

definition Number :: "builtins \<Rightarrow> json option \<Rightarrow> error + jsnumber" where
  "Number B v =
     (case v of
        None \<Rightarrow> Inr NaN
      | Some JNull \<Rightarrow> Inr (Finite 0)
      | Some (JBool b) \<Rightarrow> Inr (Finite (if b then 1 else 0))
      | Some (JNumber n) \<Rightarrow> Inr n
      | Some (JString str) \<Rightarrow> Inr (StringToNumber B str)
      | Some (JArray xs) \<Rightarrow> ObjectToNumber B (JArray xs)
      | Some (JObject props) \<Rightarrow> ObjectToNumber B (JObject props))"

text \<open>
  A JavaScript \<^verbatim>\<open>Map\<close> keeps its keys in insertion order: it is a list of key-value pairs.
  \<^verbatim>\<open>Map.set\<close> overwrites the value of a key in place and appends a new key at the end.
\<close>

fun map_set :: "'k \<Rightarrow> 'v \<Rightarrow> ('k \<times> 'v) list \<Rightarrow> ('k \<times> 'v) list" where
  "map_set k v [] = [(k, v)]"
| "map_set k v (p # m) = (if fst p = k then (k, v) # m else p # map_set k v m)"

definition map_get :: "('k \<times> 'v) list \<Rightarrow> 'k \<Rightarrow> 'v option" where
  "map_get m k = map_of m k"

definition map_has :: "('k \<times> 'v) list \<Rightarrow> 'k \<Rightarrow> bool" where
  "map_has m k = (map_of m k \<noteq> None)"

definition map_keys :: "('k \<times> 'v) list \<Rightarrow> 'k list" where
  "map_keys m = map fst m"

text \<open>\<^verbatim>\<open>new Map(entries)\<close>: the entries are set one after the other.\<close>

definition new_Map :: "('k \<times> 'v) list \<Rightarrow> ('k \<times> 'v) list" where
  "new_Map entries = foldl (\<lambda>m p. map_set (fst p) (snd p) m) [] entries"

text \<open>\<^verbatim>\<open>a ?? b\<close> on optional values.\<close>

definition nullish :: "'a option \<Rightarrow> 'a option \<Rightarrow> 'a option" where
  "nullish a b = (case a of Some x \<Rightarrow> Some x | None \<Rightarrow> b)"

section \<open>The race channel\<close>

text \<open>
  The durable object of \<^verbatim>\<open>src/raceState.ts\<close>: a roster, the latest telemetry of each boat,
  and the views built from both. A request is handled at one reading \<open>now\<close> of the clock.
\<close>

record BoatRosterEntry =
  re_boatId :: string
  re_boatName :: string
  re_nation :: "string option"
  re_joinedAt :: rat
  re_lastSeen :: "rat option"

record Telemetry =
  tm_boatId :: string
  tm_lat :: rat
  tm_lon :: rat
  tm_t :: rat
  tm_sog :: "rat option"
  tm_cog :: "rat option"
  tm_heading :: "rat option"
  tm_heel :: "rat option"

record BoatView =
  bv_boatId :: string
  bv_boatName :: string
  bv_nation :: "string option"
  bv_joinedAt :: rat
  bv_live :: bool
  bv_lastSeen :: "rat option"
  bv_lat :: "rat option"
  bv_lng :: "rat option"
  bv_speed :: "rat option"
  bv_heading :: "rat option"
  bv_timestamp :: "rat option"

definition LIVE_MS :: rat where
  "LIVE_MS = 120000"

text \<open>
  The parsed JSON body of a request, after the coercions the handlers apply to each field.
  A text field holds \<open>None\<close> when the JSON value is falsy (absent, \<^verbatim>\<open>null\<close>, the empty
  string, zero, \<^verbatim>\<open>false\<close>) and \<open>Some (String v)\<close> otherwise, so that
  \<^verbatim>\<open>String(body?.f || "")\<close> is \<open>text_of\<close> of the field. A numeric field holds
  \<^verbatim>\<open>safeNum(body?.f)\<close>.
\<close>

record body =
  b_raceId :: "string option"
  b_boatId :: "string option"
  b_boatName :: "string option"
  b_nation :: "string option"
  b_lat :: "rat option"
  b_lon :: "rat option"
  b_t :: "rat option"
  b_sog :: "rat option"
  b_speed :: "rat option"
  b_cog :: "rat option"
  b_course :: "rat option"
  b_heading :: "rat option"
  b_heel :: "rat option"

definition text_of :: "string option \<Rightarrow> string" where
  "text_of v = (case v of None \<Rightarrow> [] | Some s \<Rightarrow> s)"

text \<open>
  \<^verbatim>\<open>safeNum\<close> on the JSON value of a field: the value itself when it is a number,
  \<^verbatim>\<open>Number(v)\<close> otherwise, kept when it is finite. The conversion of an object can throw.
\<close>

definition safeNum :: "builtins \<Rightarrow> json option \<Rightarrow> error + rat option" where
  "safeNum B v =
     (case (case v of Some (JNumber n) \<Rightarrow> Inr n | _ \<Rightarrow> Number B v) of
        Inl e \<Rightarrow> Inl e
      | Inr n \<Rightarrow> Inr (finite_part n))"

text \<open>
  \<^verbatim>\<open>mustHaveTelemetryFields\<close>, on a body whose fields \<open>b_lat\<close> and \<open>b_lon\<close> hold the results
  of its two calls of \<^verbatim>\<open>safeNum\<close>.
\<close>

datatype check = CheckOk | CheckFailed string

definition mustHaveTelemetryFields :: "body \<Rightarrow> check" where
  "mustHaveTelemetryFields b =
     (let boatId = text_of (b_boatId b); lat = b_lat b; lon = b_lon b in
      if boatId = [] then CheckFailed ''Missing boatId''
      else if lat = None then CheckFailed ''Missing lat''
      else if lon = None then CheckFailed ''Missing lon''
      else CheckOk)"

text \<open>
  The state of one durable object: the two in-memory maps, the \<^verbatim>\<open>loaded\<close> flag, the
  object's storage under \<^verbatim>\<open>STORAGE_KEY\<close> (\<open>None\<close> before the first \<^verbatim>\<open>persist\<close>) and the
  list kept under \<^verbatim>\<open>races:index\<close> in the \<^verbatim>\<open>HISTORY\<close> namespace. The set of sockets is not
  part of the model: \<^verbatim>\<open>broadcast\<close> is represented by the events a request hands to it.
\<close>

record RaceState =
  roster :: "(string \<times> BoatRosterEntry) list"
  latest :: "(string \<times> Telemetry) list"
  loaded :: bool
  storage :: "((string \<times> BoatRosterEntry) list \<times> (string \<times> Telemetry) list) option"
  races_index :: "string list"

definition initial :: RaceState where
  "initial = \<lparr>roster = [], latest = [], loaded = False, storage = None, races_index = []\<rparr>"

definition loadOnce :: "RaceState \<Rightarrow> RaceState" where
  "loadOnce s =
     (if loaded s then s
      else (case storage s of
              None \<Rightarrow> s\<lparr>loaded := True\<rparr>
            | Some saved \<Rightarrow>
                s\<lparr>roster := new_Map (fst saved), latest := new_Map (snd saved), loaded := True\<rparr>))"

definition persist :: "RaceState \<Rightarrow> RaceState" where
  "persist s = s\<lparr>storage := Some (roster s, latest s)\<rparr>"

definition updateRacesIndex :: "string \<Rightarrow> RaceState \<Rightarrow> RaceState" where
  "updateRacesIndex raceId s =
     (if raceId \<in> set (races_index s) then s
      else s\<lparr>races_index := races_index s @ [raceId]\<rparr>)"

text \<open>
  The view of one roster entry, as \<^verbatim>\<open>boatsView\<close> builds it. \<open>now\<close> is the reading of the
  clock (\<^verbatim>\<open>nowMs()\<close>). The test \<^verbatim>\<open>lastSeen ? ... : false\<close> is false for \<^verbatim>\<open>undefined\<close> and
  for the number zero.
\<close>

definition boatView :: "rat \<Rightarrow> (string \<times> Telemetry) list \<Rightarrow> string \<Rightarrow> BoatRosterEntry \<Rightarrow> BoatView" where
  "boatView now lat boatId entry =
     (let telem = map_get lat boatId;
          lastSeen = nullish (re_lastSeen entry) (map_option tm_t telem);
          live = (case lastSeen of
                    None \<Rightarrow> False
                  | Some ls \<Rightarrow> if ls = 0 then False else now - ls \<le> LIVE_MS)
      in \<lparr>bv_boatId = boatId,
          bv_boatName = re_boatName entry,
          bv_nation = re_nation entry,
          bv_joinedAt = re_joinedAt entry,
          bv_live = live,
          bv_lastSeen = lastSeen,
          bv_lat = map_option tm_lat telem,
          bv_lng = map_option tm_lon telem,
          bv_speed = Option.bind telem tm_sog,
          bv_heading = nullish (Option.bind telem tm_heading) (Option.bind telem tm_cog),
          bv_timestamp = map_option tm_t telem\<rparr>)"

text \<open>
  An array index is a canonical decimal numeral below \<open>2\<^sup>3\<^sup>2 - 1\<close>.
\<close>

definition digit_value :: "char \<Rightarrow> nat" where
  "digit_value c = of_char c - 48"

definition is_digit :: "char \<Rightarrow> bool" where
  "is_digit c = (48 \<le> (of_char c :: nat) \<and> (of_char c :: nat) \<le> 57)"

definition array_index :: "string \<Rightarrow> nat option" where
  "array_index key =
     (let n = foldl (\<lambda>a c. 10 * a + digit_value c) 0 key in
      if key \<noteq> [] \<and> list_all is_digit key \<and> (key = ''0'' \<or> hd key \<noteq> CHR ''0'')
         \<and> n < 4294967295
      then Some n else None)"

text \<open>
  A plain object is the list of its own properties in the order in which the engine
  enumerates them (\<^verbatim>\<open>Object.values\<close>, \<^verbatim>\<open>JSON.stringify\<close>): the properties whose key is an
  array index first, in ascending numeric order, and the other properties after them in
  the order in which they were created.
\<close>

definition own_property_order :: "(string \<times> 'v) list \<Rightarrow> (string \<times> 'v) list" where
  "own_property_order props =
     sort_key (\<lambda>p. the (array_index (fst p))) (filter (\<lambda>p. array_index (fst p) \<noteq> None) props)
     @ filter (\<lambda>p. array_index (fst p) = None) props"

text \<open>
  The object that \<^verbatim>\<open>const out = {}\<close> is after the assignments \<^verbatim>\<open>out[key] = value\<close> of the
  given pairs, each key assigned once. The assignment to the key \<^verbatim>\<open>__proto__\<close> calls the
  setter inherited from \<^verbatim>\<open>Object.prototype\<close>: it replaces the prototype of \<^verbatim>\<open>out\<close> and
  creates no own property.
\<close>

definition plain_object :: "(string \<times> 'v) list \<Rightarrow> (string \<times> 'v) list" where
  "plain_object assignments =
     own_property_order (filter (\<lambda>p. fst p \<noteq> ''__proto__'') assignments)"

definition object_values :: "(string \<times> 'v) list \<Rightarrow> 'v list" where
  "object_values obj = map snd obj"

text \<open>
  \<^verbatim>\<open>boatsView\<close> assigns the view of each roster entry to the property \<^verbatim>\<open>out[boatId]\<close>, in
  the order of the roster. The roster is a \<^verbatim>\<open>Map\<close>, so each boatId is assigned once.
\<close>

definition boatsView :: "rat \<Rightarrow> RaceState \<Rightarrow> (string \<times> BoatView) list" where
  "boatsView now s =
     plain_object (map (\<lambda>p. (fst p, boatView now (latest s) (fst p) (snd p))) (roster s))"

datatype event =
  Full rat "(string \<times> BoatView) list"
| Update rat string BoatView

datatype response =
  BadRequest string
| Joined string nat
| Updated
| NotFound

text \<open>
  POST /join. The request body is \<open>None\<close> when it is not JSON. The result is the response,
  the events handed to \<^verbatim>\<open>broadcast\<close> and the state after the request.
\<close>

definition join :: "rat \<Rightarrow> body option \<Rightarrow> RaceState \<Rightarrow> response \<times> event list \<times> RaceState" where
  "join now req s0 =
     (let s = loadOnce s0 in
      case req of
        None \<Rightarrow> (BadRequest ''Bad JSON'', [], s)
      | Some b \<Rightarrow>
          (let raceId = text_of (b_raceId b);
               boatId = text_of (b_boatId b);
               boatName = (case b_boatName b of Some n \<Rightarrow> n | None \<Rightarrow> boatId);
               nation = b_nation b
           in if raceId = [] then (BadRequest ''Missing raceId'', [], s)
              else if boatId = [] then (BadRequest ''Missing boatId'', [], s)
              else
                (let s1 = updateRacesIndex raceId s;
                     existing = map_get (roster s1) boatId;
                     joinedAt = (case existing of Some e \<Rightarrow> re_joinedAt e | None \<Rightarrow> now);
                     s2 = s1\<lparr>roster := map_set boatId
                             \<lparr>re_boatId = boatId, re_boatName = boatName, re_nation = nation,
                              re_joinedAt = joinedAt,
                              re_lastSeen = Option.bind existing re_lastSeen\<rparr> (roster s1)\<rparr>;
                     s3 = persist s2
                 in (Joined boatId (length (roster s3)), [Full now (boatsView now s3)], s3))))"

text \<open>
  POST /update. Once \<open>mustHaveTelemetryFields\<close> has passed, \<^verbatim>\<open>Number(body.lat)\<close> and
  \<^verbatim>\<open>Number(body.lon)\<close> are the finite numbers of the two fields, and once the roster entry
  has been created, \<^verbatim>\<open>this.roster.get(boatId)!\<close> is defined.
\<close>

definition update :: "rat \<Rightarrow> body option \<Rightarrow> RaceState \<Rightarrow> response \<times> event list \<times> RaceState" where
  "update now req s0 =
     (let s = loadOnce s0 in
      case req of
        None \<Rightarrow> (BadRequest ''Bad JSON'', [], s)
      | Some b \<Rightarrow>
          (let raceId = text_of (b_raceId b) in
           if raceId = [] then (BadRequest ''Missing raceId'', [], s)
           else
             (case mustHaveTelemetryFields b of
                CheckFailed msg \<Rightarrow> (BadRequest msg, [], s)
              | CheckOk \<Rightarrow>
                  (let boatId = text_of (b_boatId b);
                       lat = the (b_lat b);
                       lon = the (b_lon b);
                       t = (case b_t b of Some x \<Rightarrow> x | None \<Rightarrow> now);
                       s1 = updateRacesIndex raceId s;
                       s2 = (if \<not> map_has (roster s1) boatId
                             then s1\<lparr>roster := map_set boatId
                                    \<lparr>re_boatId = boatId,
                                     re_boatName = (case b_boatName b of Some n \<Rightarrow> n | None \<Rightarrow> boatId),
                                     re_nation = b_nation b,
                                     re_joinedAt = now,
                                     re_lastSeen = None\<rparr> (roster s1)\<rparr>
                             else s1);
                       telem = \<lparr>tm_boatId = boatId, tm_lat = lat, tm_lon = lon, tm_t = t,
                                tm_sog = nullish (b_sog b) (b_speed b),
                                tm_cog = nullish (b_cog b) (b_course b),
                                tm_heading = b_heading b,
                                tm_heel = b_heel b\<rparr>;
                       s3 = s2\<lparr>latest := map_set boatId telem (latest s2)\<rparr>;
                       entry = (the (map_get (roster s3) boatId))\<lparr>re_lastSeen := Some t\<rparr>;
                       s4 = s3\<lparr>roster := map_set boatId entry (roster s3)\<rparr>;
                       s5 = persist s4;
                       boatView = \<lparr>bv_boatId = boatId,
                                   bv_boatName = re_boatName entry,
                                   bv_nation = re_nation entry,
                                   bv_joinedAt = re_joinedAt entry,
                                   bv_live = True,
                                   bv_lastSeen = Some t,
                                   bv_lat = Some (tm_lat telem),
                                   bv_lng = Some (tm_lon telem),
                                   bv_speed = tm_sog telem,
                                   bv_heading = nullish (tm_heading telem) (tm_cog telem),
                                   bv_timestamp = Some (tm_t telem)\<rparr>
                   in (Updated, [Update now boatId boatView], s5)))))"

text \<open>
  POST /update on a body that parses, with the fields \<^verbatim>\<open>lat\<close> and \<^verbatim>\<open>lon\<close> as the JSON
  values \<open>la\<close> and \<open>lo\<close> that the body has for them; \<open>b\<close> holds the other fields. The
  handler tests the raceId, then \<^verbatim>\<open>mustHaveTelemetryFields\<close> converts both values with
  \<^verbatim>\<open>safeNum\<close> before it tests anything. A conversion that throws ends the request with an
  uncaught exception (\<open>Inl\<close>), after \<^verbatim>\<open>loadOnce\<close> and before any other effect.
\<close>

definition update_json ::
  "builtins \<Rightarrow> rat \<Rightarrow> body \<Rightarrow> json option \<Rightarrow> json option \<Rightarrow> RaceState
     \<Rightarrow> (error + response) \<times> event list \<times> RaceState" where
  "update_json B now b la lo s =
     (if text_of (b_raceId b) = [] then (Inr (BadRequest ''Missing raceId''), [], loadOnce s)
      else
        (case safeNum B la of
           Inl e \<Rightarrow> (Inl e, [], loadOnce s)
         | Inr lat \<Rightarrow>
             (case safeNum B lo of
                Inl e \<Rightarrow> (Inl e, [], loadOnce s)
              | Inr lon \<Rightarrow>
                  (let r = update now (Some (b\<lparr>b_lat := lat, b_lon := lon\<rparr>)) s
                   in (Inr (fst r), snd r)))))"

text \<open>
  \<^verbatim>\<open>Array.prototype.sort\<close> with a comparison function is a stable sort: an element goes
  before the first later element that it does not compare greater than.
\<close>

fun insert_by :: "('a \<Rightarrow> 'a \<Rightarrow> int) \<Rightarrow> 'a \<Rightarrow> 'a list \<Rightarrow> 'a list" where
  "insert_by cmp x [] = [x]"
| "insert_by cmp x (y # ys) = (if cmp x y \<le> 0 then x # y # ys else y # insert_by cmp x ys)"

definition sort_by :: "('a \<Rightarrow> 'a \<Rightarrow> int) \<Rightarrow> 'a list \<Rightarrow> 'a list" where
  "sort_by cmp xs = foldr (insert_by cmp) xs []"

text \<open>
  \<^verbatim>\<open>localeCompare\<close> orders strings by the collation of the host's locale. The collation is
  a parameter of the model: a function \<open>collate\<close> from strings to sort keys of a linear order.
\<close>

definition localeCompare :: "(string \<Rightarrow> 'k::linorder) \<Rightarrow> string \<Rightarrow> string \<Rightarrow> int" where
  "localeCompare collate a b =
     (if collate a < collate b then - 1 else if collate a = collate b then 0 else 1)"

definition view_order :: "(string \<Rightarrow> 'k::linorder) \<Rightarrow> BoatView \<Rightarrow> BoatView \<Rightarrow> int" where
  "view_order collate a b =
     (if bv_live a \<noteq> bv_live b then (if bv_live a then - 1 else 1)
      else localeCompare collate (bv_boatName a) (bv_boatName b))"

definition boatsViewArray :: "(string \<Rightarrow> 'k::linorder) \<Rightarrow> rat \<Rightarrow> RaceState \<Rightarrow> BoatView list" where
  "boatsViewArray collate now s = sort_by (view_order collate) (object_values (boatsView now s))"

text \<open>
  The requests of a channel that the properties below range over, and a run of the channel:
  each request comes with the reading of the clock at its arrival. \<open>Restart\<close> is the
  eviction of the object followed by its construction: the fields are initialised again,
  the storage stays.
\<close>

datatype request =
  PostJoin "body option"
| PostUpdate "body option"
| Restart

definition constructor :: "RaceState \<Rightarrow> RaceState" where
  "constructor s = s\<lparr>roster := [], latest := [], loaded := False\<rparr>"

definition fetch :: "rat \<Rightarrow> request \<Rightarrow> RaceState \<Rightarrow> response \<times> event list \<times> RaceState" where
  "fetch now req s =
     (case req of
        PostJoin b \<Rightarrow> join now b s
      | PostUpdate b \<Rightarrow> update now b s
      | Restart \<Rightarrow> (NotFound, [], constructor s))"

fun run :: "(rat \<times> request) list \<Rightarrow> RaceState \<Rightarrow> RaceState" where
  "run [] s = s"
| "run (r # rs) s = run rs (snd (snd (fetch (fst r) (snd r) s)))"

text \<open>
  Every key of the telemetry map is a key of the roster, in memory and in the stored
  snapshot.
\<close>

definition roster_covers_telemetry :: "RaceState \<Rightarrow> bool" where
  "roster_covers_telemetry s \<longleftrightarrow>
     set (map_keys (latest s)) \<subseteq> set (map_keys (roster s)) \<and>
     (case storage s of
        None \<Rightarrow> True
      | Some saved \<Rightarrow> set (map_keys (snd saved)) \<subseteq> set (map_keys (fst saved)))"

text \<open>
  The sort key that \<open>view_order\<close> compares by: live boats before the others, then the
  collation of the display name.
\<close>

definition view_key :: "(string \<Rightarrow> 'k::linorder) \<Rightarrow> BoatView \<Rightarrow> bool \<times> 'k" where
  "view_key collate v = (\<not> bv_live v, collate (bv_boatName v))"

section \<open>The worker with the track log\<close>

text \<open>
  The worker of \<^verbatim>\<open>unnamed/part_003\<close>: it writes the accepted points to the table
  \<^verbatim>\<open>track_points\<close> and replays them with interpolation. The table is a list of rows in the
  order in which it keeps them. Reads of the table succeed in the model; a write succeeds
  or fails as a flag of the request says.
\<close>

record TrackPoint =
  tp_raceId :: string
  tp_boatId :: string
  tp_t :: rat
  tp_lat :: rat
  tp_lon :: rat
  tp_sog :: "rat option"
  tp_cog :: "rat option"
  tp_name :: "string option"

record LiveBoat =
  lb_boatId :: string
  lb_name :: "string option"
  lb_lat :: rat
  lb_lon :: rat
  lb_sog :: "rat option"
  lb_cog :: "rat option"
  lb_t :: rat

record frame =
  fr_t :: rat
  fr_boats :: "LiveBoat list"

definition clamp :: "rat \<Rightarrow> rat \<Rightarrow> rat \<Rightarrow> rat" where
  "clamp n lo hi = max lo (min hi n)"

subsection \<open>The durable object of this worker\<close>

text \<open>
  The object of this worker keeps one \<open>LiveBoat\<close> per boat and no roster. Its \<^verbatim>\<open>snapshot\<close>
  first prunes the map, then lists what is left by boatId; the result is the list and the
  pruned map.
\<close>

definition ACTIVE_MS :: rat where
  "ACTIVE_MS = 120000"

definition prune :: "rat \<Rightarrow> (string \<times> LiveBoat) list \<Rightarrow> (string \<times> LiveBoat) list" where
  "prune now boats = filter (\<lambda>e. \<not> now - lb_t (snd e) > ACTIVE_MS) boats"

definition snapshot ::
  "(string \<Rightarrow> 'k::linorder) \<Rightarrow> rat \<Rightarrow> (string \<times> LiveBoat) list
     \<Rightarrow> LiveBoat list \<times> (string \<times> LiveBoat) list" where
  "snapshot collate now boats =
     (let kept = prune now boats in
      (sort_by (\<lambda>a b. localeCompare collate (lb_boatId a) (lb_boatId b)) (map snd kept), kept))"

subsection \<open>POST /track\<close>

text \<open>
  The fields of a track request after the handler's coercions: the two ids are
  \<^verbatim>\<open>String(p.f || "").trim()\<close>, \<open>k_lat\<close> and \<open>k_lon\<close> are \<^verbatim>\<open>Number(p.f)\<close> when that is
  finite, \<open>k_t\<close>, \<open>k_sog\<close> and \<open>k_cog\<close> are the field when it is a finite number, and
  \<open>k_name\<close> is \<^verbatim>\<open>String(p.name)\<close> for a truthy name (cut to 80 characters by the
  handler; a character is a byte here).
\<close>

record track_body =
  k_raceId :: string
  k_boatId :: string
  k_lat :: "rat option"
  k_lon :: "rat option"
  k_t :: "rat option"
  k_sog :: "rat option"
  k_cog :: "rat option"
  k_name :: "string option"

text \<open>
  Modelled from the spec: the schema of the table \<^verbatim>\<open>track_points\<close> is not among the
  sources. The spec keys a row by (raceId, boatId, t), so \<^verbatim>\<open>INSERT OR REPLACE\<close> removes the
  row with the key of the new one and appends the new row.
\<close>

definition insert_or_replace :: "TrackPoint \<Rightarrow> TrackPoint list \<Rightarrow> TrackPoint list" where
  "insert_or_replace p db =
     filter (\<lambda>r. \<not> (tp_raceId r = tp_raceId p \<and> tp_boatId r = tp_boatId p \<and> tp_t r = tp_t p)) db
     @ [p]"

text \<open>The key of a row, and the logs in which no two rows share their key.\<close>

definition row_key :: "TrackPoint \<Rightarrow> string \<times> string \<times> rat" where
  "row_key r = (tp_raceId r, tp_boatId r, tp_t r)"

definition unique_rows :: "TrackPoint list \<Rightarrow> bool" where
  "unique_rows db \<longleftrightarrow> inj_on row_key (set db)"

subsection \<open>GET /replay\<close>

text \<open>
  The parameters of a replay request: \<open>q_raceId\<close> is the text of the parameter (\<open>None\<close>
  when it is absent), \<open>q_from\<close> and \<open>q_to\<close> are \<^verbatim>\<open>Number(...)\<close> of the parameter when
  that is finite, and \<open>q_hz\<close> is \<^verbatim>\<open>Number(hz || "4")\<close> when that is finite.
\<close>

record replay_query =
  q_raceId :: "string option"
  q_from :: "rat option"
  q_to :: "rat option"
  q_hz :: "rat option"

record replay_result =
  rr_raceId :: string
  rr_from :: rat
  rr_to :: rat
  rr_hz :: rat
  rr_stepMs :: int
  rr_frames :: "frame list"

datatype worker_response =
  Unauthorized
| Bad string
| TrackOk
| ReplayOk replay_result
| Failed string
| Uncaught

definition maxWindowMs :: rat where
  "maxWindowMs = 6 * 60 * 60 * 1000"

definition replay_hz :: "rat option \<Rightarrow> rat" where
  "replay_hz hzRaw = clamp (case hzRaw of Some h \<Rightarrow> h | None \<Rightarrow> 4) 1 10"

definition replay_stepMs :: "rat \<Rightarrow> int" where
  "replay_stepMs hz = \<lfloor>1000 / hz\<rfloor>"

text \<open>
  The query of the handler: the rows of the race with \<open>from \<le> t \<le> to\<close>, ordered by boatId
  and then by t. Text is compared byte by byte.
\<close>

definition select_track_points :: "TrackPoint list \<Rightarrow> string \<Rightarrow> rat \<Rightarrow> rat \<Rightarrow> TrackPoint list" where
  "select_track_points db raceId from to =
     sort_key (\<lambda>r. (tp_boatId r, tp_t r))
       (filter (\<lambda>r. tp_raceId r = raceId \<and> from \<le> tp_t r \<and> tp_t r \<le> to) db)"

text \<open>The map \<^verbatim>\<open>byBoat\<close>: each row is pushed on the list of its boat.\<close>

definition push_row :: "TrackPoint \<Rightarrow> (string \<times> TrackPoint list) list \<Rightarrow> (string \<times> TrackPoint list) list" where
  "push_row tp byBoat =
     (let m = (if \<not> map_has byBoat (tp_boatId tp) then map_set (tp_boatId tp) [] byBoat
               else byBoat)
      in map_set (tp_boatId tp) (the (map_get m (tp_boatId tp)) @ [tp]) m)"

definition group_by_boat :: "TrackPoint list \<Rightarrow> (string \<times> TrackPoint list) list" where
  "group_by_boat rows = foldl (\<lambda>m r. push_row r m) [] rows"

definition lerp :: "rat \<Rightarrow> rat \<Rightarrow> rat \<Rightarrow> rat" where
  "lerp a b x = a + (b - a) * x"

definition lerp_opt :: "rat option \<Rightarrow> rat option \<Rightarrow> rat \<Rightarrow> rat option" where
  "lerp_opt a b x =
     (case (a, b) of (Some u, Some v) \<Rightarrow> Some (lerp u v x) | _ \<Rightarrow> nullish a b)"

definition interp :: "TrackPoint \<Rightarrow> TrackPoint \<Rightarrow> rat \<Rightarrow> LiveBoat" where
  "interp p0 p1 t =
     (let span = tp_t p1 - tp_t p0;
          alpha = (if span \<le> 0 then 0 else (t - tp_t p0) / span);
          x = clamp alpha 0 1
      in \<lparr>lb_boatId = tp_boatId p0,
          lb_name = nullish (tp_name p0) (tp_name p1),
          lb_lat = lerp (tp_lat p0) (tp_lat p1) x,
          lb_lon = lerp (tp_lon p0) (tp_lon p1) x,
          lb_sog = lerp_opt (tp_sog p0) (tp_sog p1) x,
          lb_cog = lerp_opt (tp_cog p0) (tp_cog p1) x,
          lb_t = t\<rparr>)"

text \<open>The entry that the loop pushes for a boat when it falls back on one of its points.\<close>

definition at_point :: "string \<Rightarrow> TrackPoint \<Rightarrow> rat \<Rightarrow> LiveBoat" where
  "at_point boatId p t =
     \<lparr>lb_boatId = boatId, lb_name = tp_name p, lb_lat = tp_lat p, lb_lon = tp_lon p,
      lb_sog = tp_sog p, lb_cog = tp_cog p, lb_t = t\<rparr>"

text \<open>
  The cursor of a boat: \<^verbatim>\<open>while (i + 1 < pts.length && pts[i + 1].t < t) i++\<close>.
\<close>

function advance :: "TrackPoint list \<Rightarrow> rat \<Rightarrow> nat \<Rightarrow> nat" where
  "advance pts t i =
     (if i + 1 < length pts \<and> tp_t (pts ! (i + 1)) < t then advance pts t (i + 1) else i)"
  by pat_completeness auto
termination
  by (relation "measure (\<lambda>(pts, t, i). length pts - i)") auto

declare advance.simps [simp del]

text \<open>
  Reading \<^verbatim>\<open>pts[i + 1]\<close> beyond the end of the array gives \<^verbatim>\<open>undefined\<close>, and
  \<^verbatim>\<open>interp\<close> then throws on its first property access.
\<close>

definition sample_boat :: "string \<Rightarrow> TrackPoint list \<Rightarrow> nat \<Rightarrow> rat \<Rightarrow> error + LiveBoat" where
  "sample_boat boatId pts i t =
     (if t \<le> tp_t (pts ! 0) then Inr (at_point boatId (pts ! 0) t)
      else if t \<ge> tp_t (pts ! (length pts - 1)) then Inr (at_point boatId (pts ! (length pts - 1)) t)
      else if i + 1 < length pts then Inr (interp (pts ! i) (pts ! (i + 1)) t)
      else Inl TypeError)"

text \<open>\<^verbatim>\<open>idx.get(boatId) ?? 0\<close>.\<close>

definition cursor :: "(string \<times> nat) list \<Rightarrow> string \<Rightarrow> nat" where
  "cursor idx boatId = (case map_get idx boatId of Some j \<Rightarrow> j | None \<Rightarrow> 0)"

text \<open>
  The inner loop of a frame, over the entries of \<^verbatim>\<open>byBoat\<close>: it returns the boats of
  the frame and the cursors after it.
\<close>

fun frame_boats ::
  "(string \<times> TrackPoint list) list \<Rightarrow> (string \<times> nat) list \<Rightarrow> rat
     \<Rightarrow> error + (LiveBoat list \<times> (string \<times> nat) list)" where
  "frame_boats [] idx t = Inr ([], idx)"
| "frame_boats (e # rest) idx t =
     (if snd e = [] then frame_boats rest idx t
      else
        (let i = advance (snd e) t (cursor idx (fst e));
             idx' = map_set (fst e) i idx
         in case sample_boat (fst e) (snd e) i t of
              Inl err \<Rightarrow> Inl err
            | Inr b \<Rightarrow>
                (case frame_boats rest idx' t of
                   Inl err \<Rightarrow> Inl err
                 | Inr r \<Rightarrow> Inr (b # fst r, snd r))))"

text \<open>
  The outer loop \<^verbatim>\<open>for (let t = from; t <= to; t += stepMs)\<close>. The handler calls it with
  a step of at least 100; the test \<open>0 < stepMs\<close> stands for that and makes the recursion
  well-founded.
\<close>

function frames_from ::
  "(string \<times> TrackPoint list) list \<Rightarrow> rat \<Rightarrow> rat \<Rightarrow> (string \<times> nat) list \<Rightarrow> rat
     \<Rightarrow> error + frame list" where
  "frames_from byBoat stepMs to idx t =
     (if t \<le> to \<and> 0 < stepMs then
        (case frame_boats byBoat idx t of
           Inl err \<Rightarrow> Inl err
         | Inr r \<Rightarrow>
             (case frames_from byBoat stepMs to (snd r) (t + stepMs) of
                Inl err \<Rightarrow> Inl err
              | Inr fs \<Rightarrow> Inr (\<lparr>fr_t = t, fr_boats = fst r\<rparr> # fs)))
      else Inr [])"
  by pat_completeness auto
termination
proof (relation "measure (\<lambda>(byBoat, stepMs, to, idx, t). nat (\<lfloor>(to - t) / stepMs\<rfloor> + 1))")
  show "wf (measure (\<lambda>(byBoat, stepMs, to, idx, t). nat (\<lfloor>(to - t) / stepMs\<rfloor> + 1)))"
    by simp
next
  fix byBoat :: "(string \<times> TrackPoint list) list" and stepMs to t :: rat
    and idx :: "(string \<times> nat) list" and r :: "LiveBoat list \<times> (string \<times> nat) list"
  assume a: "t \<le> to \<and> 0 < stepMs"
  then have "(to - (t + stepMs)) / stepMs = (to - t) / stepMs - 1"
    by (simp add: field_simps)
  moreover from a have "0 \<le> \<lfloor>(to - t) / stepMs\<rfloor>"
    by simp
  ultimately show "((byBoat, stepMs, to, snd r, t + stepMs), (byBoat, stepMs, to, idx, t))
      \<in> measure (\<lambda>(byBoat, stepMs, to, idx, t). nat (\<lfloor>(to - t) / stepMs\<rfloor> + 1))"
    by simp
qed

declare frames_from.simps [simp del]

definition initial_idx :: "(string \<times> TrackPoint list) list \<Rightarrow> (string \<times> nat) list" where
  "initial_idx byBoat = foldl (\<lambda>idx boatId. map_set boatId 0 idx) [] (map_keys byBoat)"

definition handle_replay :: "TrackPoint list \<Rightarrow> replay_query \<Rightarrow> worker_response" where
  "handle_replay db q =
     (if text_of (q_raceId q) = [] then Bad ''Missing raceId''
      else if q_from q = None \<or> q_to q = None then Bad ''from/to must be unix ms''
      else
        (let raceId = text_of (q_raceId q); from = the (q_from q); to = the (q_to q) in
         if to \<le> from then Bad ''to must be > from''
         else if to - from > maxWindowMs then Bad ''time window too large (max 6 hours)''
         else
           (let hz = replay_hz (q_hz q);
                stepMs = replay_stepMs hz;
                rows = select_track_points db raceId from to;
                byBoat = group_by_boat rows
            in case frames_from byBoat (of_int stepMs) to (initial_idx byBoat) from of
                 Inl err \<Rightarrow> Uncaught
               | Inr frames \<Rightarrow>
                   ReplayOk \<lparr>rr_raceId = raceId, rr_from = from, rr_to = to, rr_hz = hz,
                             rr_stepMs = stepMs, rr_frames = frames\<rparr>)))"

text \<open>
  The body of a track request as the handler reads it. The handler parses the body inside
  a \<^verbatim>\<open>try\<close> and reads its fields outside of it: a body that is the JSON value \<^verbatim>\<open>null\<close>
  throws a \<^verbatim>\<open>TypeError\<close> at \<^verbatim>\<open>p.raceId\<close>, and so does a conversion by \<^verbatim>\<open>String\<close> or
  \<^verbatim>\<open>Number\<close> that the handler reaches and that throws. All of these come before the write
  to the table, and nothing catches them.
\<close>

datatype track_request =
  InvalidJson
| Throws
| Fields track_body

text \<open>
  POST /track. \<open>auth\<close> says that no \<^verbatim>\<open>TRACK_SECRET\<close> is set or that the request carries it,
  \<open>written\<close> that the write to the table succeeds. The forwarding of an accepted point to
  the durable object is not part of the model.
\<close>

definition handle_track ::
  "rat \<Rightarrow> bool \<Rightarrow> bool \<Rightarrow> track_request \<Rightarrow> TrackPoint list \<Rightarrow> worker_response \<times> TrackPoint list" where
  "handle_track now auth written req db =
     (if \<not> auth then (Unauthorized, db)
      else case req of
        InvalidJson \<Rightarrow> (Bad ''Invalid JSON'', db)
      | Throws \<Rightarrow> (Uncaught, db)
      | Fields p \<Rightarrow>
          if k_raceId p = [] then (Bad ''raceId is required'', db)
          else if k_boatId p = [] then (Bad ''boatId is required'', db)
          else if k_lat p = None \<or> k_lon p = None then (Bad ''lat/lon must be numbers'', db)
          else if \<bar>the (k_lat p)\<bar> > 90 \<or> \<bar>the (k_lon p)\<bar> > 180 then (Bad ''lat/lon out of range'', db)
          else
            (let t = (case k_t p of Some x \<Rightarrow> of_int \<lfloor>x\<rfloor> | None \<Rightarrow> now);
                 point = \<lparr>tp_raceId = k_raceId p, tp_boatId = k_boatId p, tp_t = t,
                          tp_lat = the (k_lat p), tp_lon = the (k_lon p),
                          tp_sog = k_sog p, tp_cog = k_cog p,
                          tp_name = map_option (take 80) (k_name p)\<rparr>
             in if written then (TrackOk, insert_or_replace point db)
                else (Failed ''D1 write failed'', db)))"

text \<open>
  The request that the handler sees for a body that is not \<^verbatim>\<open>null\<close>, with the fields
  \<^verbatim>\<open>lat\<close> and \<^verbatim>\<open>lon\<close> as the JSON values \<open>la\<close> and \<open>lo\<close> that the body has for them; \<open>p\<close>
  holds the other fields. The handler converts both with \<^verbatim>\<open>Number\<close> once it has found the
  two ids.
\<close>

definition track_fields :: "builtins \<Rightarrow> track_body \<Rightarrow> json option \<Rightarrow> json option \<Rightarrow> track_request" where
  "track_fields B p la lo =
     (if k_raceId p = [] \<or> k_boatId p = [] then Fields p
      else
        (case Number B la of
           Inl e \<Rightarrow> Throws
         | Inr lat \<Rightarrow>
             (case Number B lo of
                Inl e \<Rightarrow> Throws
              | Inr lon \<Rightarrow> Fields (p\<lparr>k_lat := finite_part lat, k_lon := finite_part lon\<rparr>))))"

text \<open>
  The two routes of the worker that touch the track log, as one step on the log.
\<close>

datatype worker_request =
  Track bool bool track_request
| Replay replay_query

definition worker_fetch :: "rat \<Rightarrow> worker_request \<Rightarrow> TrackPoint list \<Rightarrow> worker_response \<times> TrackPoint list" where
  "worker_fetch now req db =
     (case req of
        Track auth written b \<Rightarrow> handle_track now auth written b db
      | Replay q \<Rightarrow> (handle_replay db q, db))"




section \<open>The step of a replay\<close>

text \<open>
  The three handlers divide 1000 by the clamped rate. The quotient of two doubles is the
  double nearest to their exact quotient: \<open>fl\<close> is that rounding, of which the properties
  below use that it is monotone and leaves the integers below \<open>2\<^sup>5\<^sup>3\<close> as they are.
  \<^verbatim>\<open>Math.round\<close>, \<^verbatim>\<open>Math.floor\<close>, \<^verbatim>\<open>Math.max\<close> and \<^verbatim>\<open>Math.min\<close> are exact.
\<close>

definition double_rounding :: "(rat \<Rightarrow> rat) \<Rightarrow> bool" where
  "double_rounding fl \<longleftrightarrow>
     (\<forall>x y. x \<le> y \<longrightarrow> fl x \<le> fl y) \<and>
     (\<forall>n :: int. \<bar>n\<bar> \<le> 2 ^ 53 \<longrightarrow> fl (of_int n) = of_int n)"

text \<open>The double that the literal \<^verbatim>\<open>0.1\<close> denotes.\<close>

definition tenth :: rat where
  "tenth = 3602879701896397 / 36028797018963968"

text \<open>
  The step of the /replay handler of \<^verbatim>\<open>unnamed/part_003\<close> with the rounding of the
  quotient; \<open>replay_stepMs\<close> above is this step in exact arithmetic.
\<close>

definition replay_step :: "(rat \<Rightarrow> rat) \<Rightarrow> rat option \<Rightarrow> int" where
  "replay_step fl hzRaw = \<lfloor>fl (1000 / replay_hz hzRaw)\<rfloor>"

text \<open>
  \<^verbatim>\<open>handleReplay\<close> of \<^verbatim>\<open>unnamed/part_001\<close>: \<open>hz\<close> is \<^verbatim>\<open>toNumber\<close> of the parameter,
  \<open>None\<close> for an absent or non-numeric one.
\<close>

definition handleReplay1_hz :: "rat option \<Rightarrow> rat" where
  "handleReplay1_hz hz = max tenth (min 10 (case hz of Some h \<Rightarrow> h | None \<Rightarrow> 2))"

definition handleReplay1_stepMs :: "(rat \<Rightarrow> rat) \<Rightarrow> rat option \<Rightarrow> int" where
  "handleReplay1_stepMs fl hz = max 50 (round (fl (1000 / handleReplay1_hz hz)))"

text \<open>
  \<^verbatim>\<open>handleReplay\<close> of \<^verbatim>\<open>unnamed/part_004\<close>: \<open>hz\<close> is \<^verbatim>\<open>Number(hz || "1")\<close>, which the
  handler does not test: it is \<^verbatim>\<open>NaN\<close> for a parameter that is no number. \<open>None\<close> stands
  for \<^verbatim>\<open>NaN\<close> in the two results.
  Modelled from the spec: \<^verbatim>\<open>clamp\<close> is imported from \<^verbatim>\<open>./utils\<close>, which is not among the
  sources; it is taken to be the \<open>clamp\<close> above, \<^verbatim>\<open>Math.max(lo, Math.min(hi, n))\<close>, as the
  spec's "clamped to [0.1, 10]" says. \<^verbatim>\<open>Math.min\<close> and \<^verbatim>\<open>Math.max\<close> give \<^verbatim>\<open>NaN\<close> when an
  argument is \<^verbatim>\<open>NaN\<close>, and order the infinities below and above the numbers.
\<close>

definition handleReplay4_safeHz :: "jsnumber \<Rightarrow> rat option" where
  "handleReplay4_safeHz hz =
     (case hz of
        Finite x \<Rightarrow> Some (clamp x tenth 10)
      | PosInfinity \<Rightarrow> Some 10
      | NegInfinity \<Rightarrow> Some tenth
      | NaN \<Rightarrow> None)"

definition handleReplay4_stepMs :: "(rat \<Rightarrow> rat) \<Rightarrow> jsnumber \<Rightarrow> int option" where
  "handleReplay4_stepMs fl hz =
     map_option (\<lambda>safeHz. round (fl (1000 / safeHz))) (handleReplay4_safeHz hz)"

section \<open>The forward-fill replay handlers\<close>

text \<open>
  The frame loop of the forward-fill handlers, over the rows of the window in the order of
  their time. The inner loop moves one cursor over the rows and keeps the last row of each
  boat in a map (\<^verbatim>\<open>boatsLatest\<close>; \<^verbatim>\<open>lastByBoat\<close> in part 001); a frame lists the rows of
  the map. The model follows \<^verbatim>\<open>unnamed/part_004\<close>, which steps up to \<^verbatim>\<open>effectiveTo\<close> (here
  \<open>to\<close>) and copies boatId, name, lat, lon, sog, cog and t of each row into the frame; the
  loop of part 001 is the same, with the raceId of the row copied as well.
\<close>

definition select_by_time :: "TrackPoint list \<Rightarrow> string \<Rightarrow> rat \<Rightarrow> rat \<Rightarrow> TrackPoint list" where
  "select_by_time db raceId from to =
     sort_key tp_t (filter (\<lambda>r. tp_raceId r = raceId \<and> from \<le> tp_t r \<and> tp_t r \<le> to) db)"

definition latest_boat :: "TrackPoint \<Rightarrow> LiveBoat" where
  "latest_boat p =
     \<lparr>lb_boatId = tp_boatId p, lb_name = tp_name p, lb_lat = tp_lat p, lb_lon = tp_lon p,
      lb_sog = tp_sog p, lb_cog = tp_cog p, lb_t = tp_t p\<rparr>"

function consume ::
  "TrackPoint list \<Rightarrow> rat \<Rightarrow> nat \<Rightarrow> (string \<times> TrackPoint) list \<Rightarrow> nat \<times> (string \<times> TrackPoint) list" where
  "consume points t rowIdx boatsLatest =
     (if rowIdx < length points \<and> tp_t (points ! rowIdx) \<le> t
      then consume points t (rowIdx + 1)
             (map_set (tp_boatId (points ! rowIdx)) (points ! rowIdx) boatsLatest)
      else (rowIdx, boatsLatest))"
  by pat_completeness auto
termination
  by (relation "measure (\<lambda>(points, t, rowIdx, boatsLatest). length points - rowIdx)") auto

declare consume.simps [simp del]

function forward_frames ::
  "TrackPoint list \<Rightarrow> rat \<Rightarrow> rat \<Rightarrow> nat \<Rightarrow> (string \<times> TrackPoint) list \<Rightarrow> rat \<Rightarrow> frame list" where
  "forward_frames points stepMs to rowIdx boatsLatest t =
     (if t \<le> to \<and> 0 < stepMs then
        (let r = consume points t rowIdx boatsLatest in
         \<lparr>fr_t = t, fr_boats = map (\<lambda>e. latest_boat (snd e)) (snd r)\<rparr>
           # forward_frames points stepMs to (fst r) (snd r) (t + stepMs))
      else [])"
  by pat_completeness auto
termination
proof (relation "measure (\<lambda>(points, stepMs, to, rowIdx, boatsLatest, t). nat (\<lfloor>(to - t) / stepMs\<rfloor> + 1))")
  show "wf (measure (\<lambda>(points, stepMs, to, rowIdx, boatsLatest, t). nat (\<lfloor>(to - t) / stepMs\<rfloor> + 1)))"
    by simp
next
  fix points :: "TrackPoint list" and stepMs to t :: rat and rowIdx :: nat
    and boatsLatest :: "(string \<times> TrackPoint) list" and r :: "nat \<times> (string \<times> TrackPoint) list"
  assume a: "t \<le> to \<and> 0 < stepMs"
  then have "(to - (t + stepMs)) / stepMs = (to - t) / stepMs - 1"
    by (simp add: field_simps)
  moreover from a have "0 \<le> \<lfloor>(to - t) / stepMs\<rfloor>"
    by simp
  ultimately show "((points, stepMs, to, fst r, snd r, t + stepMs),
       (points, stepMs, to, rowIdx, boatsLatest, t))
      \<in> measure (\<lambda>(points, stepMs, to, rowIdx, boatsLatest, t). nat (\<lfloor>(to - t) / stepMs\<rfloor> + 1))"
    by simp
qed

declare forward_frames.simps [simp del]


section \<open>Concrete requests and states\<close>

text \<open>A position report for a boat, with no optional field but the time.\<close>

definition report :: "string \<Rightarrow> string \<Rightarrow> rat \<Rightarrow> rat \<Rightarrow> rat \<Rightarrow> body" where
  "report raceId boatId la lo t =
     \<lparr>b_raceId = Some raceId, b_boatId = Some boatId, b_boatName = None, b_nation = None,
      b_lat = Some la, b_lon = Some lo, b_t = Some t, b_sog = None, b_speed = None,
      b_cog = None, b_course = None, b_heading = None, b_heel = None\<rparr>"

text \<open>A registration of a boat under a name.\<close>

definition registration :: "string \<Rightarrow> string \<Rightarrow> string \<Rightarrow> body" where
  "registration raceId boatId name =
     \<lparr>b_raceId = Some raceId, b_boatId = Some boatId, b_boatName = Some name, b_nation = None,
      b_lat = None, b_lon = None, b_t = None, b_sog = None, b_speed = None,
      b_cog = None, b_course = None, b_heading = None, b_heel = None\<rparr>"

text \<open>A channel that holds boat B1, joined at time 500 and last reported at time 9000.\<close>

definition channel_B1 :: RaceState where
  "channel_B1 =
     \<lparr>roster = [(''B1'', \<lparr>re_boatId = ''B1'', re_boatName = ''Blue'', re_nation = None,
                          re_joinedAt = 500, re_lastSeen = Some 9000\<rparr>)],
      latest = [(''B1'', \<lparr>tm_boatId = ''B1'', tm_lat = 1, tm_lon = 2, tm_t = 9000,
                          tm_sog = None, tm_cog = None, tm_heading = None, tm_heel = None\<rparr>)],
      loaded = True,
      storage = None,
      races_index = [''R1'']\<rparr>"

text \<open>
  A fleet of three boats: Zed and Bob reported recently, Amy reported long ago; Cat has
  joined and never reported.
\<close>

definition fleet :: RaceState where
  "fleet =
     \<lparr>roster =
        [(''B1'', \<lparr>re_boatId = ''B1'', re_boatName = ''Zed'', re_nation = None,
                  re_joinedAt = 500, re_lastSeen = Some 150000\<rparr>),
         (''B2'', \<lparr>re_boatId = ''B2'', re_boatName = ''Amy'', re_nation = None,
                  re_joinedAt = 600, re_lastSeen = Some 1000\<rparr>),
         (''B3'', \<lparr>re_boatId = ''B3'', re_boatName = ''Bob'', re_nation = None,
                  re_joinedAt = 700, re_lastSeen = Some 190000\<rparr>),
         (''B4'', \<lparr>re_boatId = ''B4'', re_boatName = ''Cat'', re_nation = None,
                  re_joinedAt = 800, re_lastSeen = None\<rparr>)],
      latest =
        [(''B1'', \<lparr>tm_boatId = ''B1'', tm_lat = 1, tm_lon = 2, tm_t = 150000,
                  tm_sog = None, tm_cog = None, tm_heading = None, tm_heel = None\<rparr>),
         (''B2'', \<lparr>tm_boatId = ''B2'', tm_lat = 3, tm_lon = 4, tm_t = 1000,
                  tm_sog = None, tm_cog = None, tm_heading = None, tm_heel = None\<rparr>),
         (''B3'', \<lparr>tm_boatId = ''B3'', tm_lat = 5, tm_lon = 6, tm_t = 190000,
                  tm_sog = None, tm_cog = None, tm_heading = None, tm_heel = None\<rparr>)],
      loaded = True,
      storage = None,
      races_index = [''R1'']\<rparr>"

text \<open>Scenario B of the spec: two points of boat B1 in race R1, and the replay request.\<close>

definition scenario_B :: "TrackPoint list" where
  "scenario_B =
     [\<lparr>tp_raceId = ''R1'', tp_boatId = ''B1'', tp_t = 0, tp_lat = 0, tp_lon = 0,
       tp_sog = None, tp_cog = None, tp_name = None\<rparr>,
      \<lparr>tp_raceId = ''R1'', tp_boatId = ''B1'', tp_t = 4000, tp_lat = 4, tp_lon = 4,
       tp_sog = None, tp_cog = None, tp_name = None\<rparr>]"

definition replay_request :: "string \<Rightarrow> rat \<Rightarrow> rat \<Rightarrow> rat \<Rightarrow> replay_query" where
  "replay_request raceId from to hz =
     \<lparr>q_raceId = Some raceId, q_from = Some from, q_to = Some to, q_hz = Some hz\<rparr>"

text \<open>A log with a single point of boat B1, at time 5000.\<close>

definition lone_point :: "TrackPoint list" where
  "lone_point =
     [\<lparr>tp_raceId = ''R1'', tp_boatId = ''B1'', tp_t = 5000, tp_lat = 7, tp_lon = 8,
       tp_sog = None, tp_cog = None, tp_name = None\<rparr>]"

text \<open>A boat of the boats-only object whose last point is at time 1000.\<close>

definition old_boat :: "(string \<times> LiveBoat) list" where
  "old_boat =
     [(''B2'', \<lparr>lb_boatId = ''B2'', lb_name = Some ''Amy'', lb_lat = 3, lb_lon = 4,
                lb_sog = None, lb_cog = None, lb_t = 1000\<rparr>)]"

text \<open>A track request with a position.\<close>

definition track_report :: "string \<Rightarrow> string \<Rightarrow> rat \<Rightarrow> rat \<Rightarrow> track_body" where
  "track_report raceId boatId la lo =
     \<lparr>k_raceId = raceId, k_boatId = boatId, k_lat = Some la, k_lon = Some lo, k_t = Some 1000,
      k_sog = None, k_cog = None, k_name = None\<rparr>"

text \<open>
  A rounding to the nearest multiple of \<open>1 / 1024\<close>: monotone, and the identity on the
  integers.
\<close>

definition grid_rounding :: "rat \<Rightarrow> rat" where
  "grid_rounding x = of_int (round (x * 1024)) / 1024"

text \<open>
  A channel with three boats that have joined and never reported, under the ids \<^verbatim>\<open>B1\<close>,
  \<^verbatim>\<open>7\<close> and \<^verbatim>\<open>__proto__\<close>.
\<close>

definition odd_ids :: RaceState where
  "odd_ids =
     \<lparr>roster =
        [(''B1'', \<lparr>re_boatId = ''B1'', re_boatName = ''Zed'', re_nation = None,
                  re_joinedAt = 500, re_lastSeen = None\<rparr>),
         (''7'', \<lparr>re_boatId = ''7'', re_boatName = ''Amy'', re_nation = None,
                 re_joinedAt = 600, re_lastSeen = None\<rparr>),
         (''__proto__'', \<lparr>re_boatId = ''__proto__'', re_boatName = ''Bob'', re_nation = None,
                         re_joinedAt = 700, re_lastSeen = None\<rparr>)],
      latest = [],
      loaded = True,
      storage = None,
      races_index = [''R1'']\<rparr>"

section \<open>Properties of the containers\<close>

lemma map_of_map_set: "map_of (map_set k v m) = (map_of m)(k \<mapsto> v)"
  by (induction m) auto

lemma image_fst_map_set: "fst ` set (map_set k v m) = insert k (fst ` set m)"
  by (induction m) auto

lemma length_map_set:
  "length (map_set k v m) = (if k \<in> set (map fst m) then length m else Suc (length m))"
  by (induction m) auto

lemma image_fst_foldl_map_set:
  "fst ` set (foldl (\<lambda>m p. map_set (fst p) (snd p) m) acc es) = fst ` set acc \<union> fst ` set es"
  by (induction es arbitrary: acc) (simp_all add: image_fst_map_set)

lemma keys_map_set: "set (map_keys (map_set k v m)) = insert k (set (map_keys m))"
  by (simp add: map_keys_def image_fst_map_set)

lemma keys_new_Map: "set (map_keys (new_Map es)) = set (map_keys es)"
  by (simp add: map_keys_def new_Map_def image_fst_foldl_map_set)

section \<open>Properties of the race channel\<close>

lemma loadOnce_loaded: "loaded s \<Longrightarrow> loadOnce s = s"
  by (simp add: loadOnce_def)

lemma updateRacesIndex_fields:
  "roster (updateRacesIndex r s) = roster s"
  "latest (updateRacesIndex r s) = latest s"
  "loaded (updateRacesIndex r s) = loaded s"
  "storage (updateRacesIndex r s) = storage s"
  by (simp_all add: updateRacesIndex_def)

lemma persist_fields:
  "roster (persist s) = roster s"
  "latest (persist s) = latest s"
  "loaded (persist s) = loaded s"
  "storage (persist s) = Some (roster s, latest s)"
  by (simp_all add: persist_def)

lemma accepted_check:
  "text_of (b_boatId b) \<noteq> [] \<Longrightarrow> b_lat b = Some la \<Longrightarrow> b_lon b = Some lo \<Longrightarrow>
     mustHaveTelemetryFields b = CheckOk"
  by (simp add: mustHaveTelemetryFields_def)

lemma report_fields:
  "text_of (b_raceId (report r i la lo t)) = r"
  "text_of (b_boatId (report r i la lo t)) = i"
  "b_lat (report r i la lo t) = Some la"
  "b_lon (report r i la lo t) = Some lo"
  "b_t (report r i la lo t) = Some t"
  "nullish (b_sog (report r i la lo t)) (b_speed (report r i la lo t)) = None"
  "nullish (b_cog (report r i la lo t)) (b_course (report r i la lo t)) = None"
  "b_heading (report r i la lo t) = None"
  "b_heel (report r i la lo t) = None"
  "b_boatName (report r i la lo t) = None"
  "b_nation (report r i la lo t) = None"
  by (simp_all add: report_def text_of_def nullish_def)

lemma registration_fields:
  "text_of (b_raceId (registration r i n)) = r"
  "text_of (b_boatId (registration r i n)) = i"
  "b_boatName (registration r i n) = Some n"
  "b_nation (registration r i n) = None"
  "b_lat (registration r i n) = None"
  by (simp_all add: registration_def text_of_def)

lemma covers_loadOnce: "roster_covers_telemetry s \<Longrightarrow> roster_covers_telemetry (loadOnce s)"
  by (auto simp: roster_covers_telemetry_def loadOnce_def keys_new_Map split: option.splits)

lemma covers_join:
  assumes "roster_covers_telemetry s"
  shows "roster_covers_telemetry (snd (snd (join now req s)))"
proof -
  from assms have "roster_covers_telemetry (loadOnce s)"
    by (rule covers_loadOnce)
  then show ?thesis
    by (auto simp: join_def Let_def roster_covers_telemetry_def persist_fields
        updateRacesIndex_fields keys_map_set split: option.splits)
qed

lemma covers_update:
  assumes "roster_covers_telemetry s"
  shows "roster_covers_telemetry (snd (snd (update now req s)))"
proof -
  from assms have "roster_covers_telemetry (loadOnce s)"
    by (rule covers_loadOnce)
  then show ?thesis
    by (auto simp: update_def Let_def roster_covers_telemetry_def persist_fields
        updateRacesIndex_fields keys_map_set split: option.splits check.splits)
qed

lemma covers_constructor:
  "roster_covers_telemetry s \<Longrightarrow> roster_covers_telemetry (constructor s)"
  by (simp add: roster_covers_telemetry_def constructor_def map_keys_def)

lemma covers_fetch:
  "roster_covers_telemetry s \<Longrightarrow> roster_covers_telemetry (snd (snd (fetch now req s)))"
  by (cases req) (simp_all add: fetch_def covers_join covers_update covers_constructor)

lemma covers_run: "roster_covers_telemetry s \<Longrightarrow> roster_covers_telemetry (run rs s)"
  by (induction rs arbitrary: s) (simp_all add: covers_fetch)

lemma covers_initial: "roster_covers_telemetry initial"
  by (simp add: roster_covers_telemetry_def initial_def map_keys_def)

lemma map_of_filter_key:
  "map_of (filter (\<lambda>p. Q (fst p)) xs) k = (if Q k then map_of xs k else None)"
  by (induction xs) auto

lemma map_of_only_key: "map_of (filter (\<lambda>p. fst p = k) xs) k = map_of xs k"
  by (induction xs) auto

lemma sort_key_constant:
  assumes "\<forall>p \<in> set xs. f p = c"
  shows "sort_key f xs = xs"
proof -
  from assms have "map f xs = replicate (length xs) c"
    by (induction xs) simp_all
  then have "sorted (map f xs)"
    by (simp add: sorted_replicate)
  then show ?thesis
    by (rule sort_key_id_if_sorted)
qed

text \<open>A stable sort by a function of the key keeps the first entry of each key first.\<close>

lemma map_of_sort_key:
  assumes "\<And>p q. fst p = fst q \<Longrightarrow> f p = f q"
  shows "map_of (sort_key f xs) k = map_of xs k"
proof -
  have "\<forall>p \<in> set (filter (\<lambda>p. fst p = k) xs). f p = f (k, undefined)"
    using assms by simp
  then have "sort_key f (filter (\<lambda>p. fst p = k) xs) = filter (\<lambda>p. fst p = k) xs"
    by (rule sort_key_constant)
  then have "filter (\<lambda>p. fst p = k) (sort_key f xs) = filter (\<lambda>p. fst p = k) xs"
    by (simp add: filter_sort)
  then show ?thesis
    using map_of_only_key [of k "sort_key f xs"] map_of_only_key [of k xs] by simp
qed

lemma map_of_own_property_order: "map_of (own_property_order xs) k = map_of xs k"
proof -
  let ?f = "\<lambda>p :: string \<times> 'a. the (array_index (fst p))"
  have s: "map_of (sort_key ?f (filter (\<lambda>p. array_index (fst p) \<noteq> None) xs)) k =
      (if array_index k \<noteq> None then map_of xs k else None)"
    using map_of_sort_key [of ?f "filter (\<lambda>p. array_index (fst p) \<noteq> None) xs" k]
      map_of_filter_key [of "\<lambda>k. array_index k \<noteq> None" xs k]
    by simp
  have r: "map_of (filter (\<lambda>p. array_index (fst p) = None) xs) k =
      (if array_index k = None then map_of xs k else None)"
    using map_of_filter_key [of "\<lambda>k. array_index k = None" xs k] by simp
  show ?thesis
    unfolding own_property_order_def map_of_append map_add_def s r
    by (simp split: option.splits)
qed

lemma set_own_property_order: "set (own_property_order xs) = set xs"
  by (auto simp: own_property_order_def)

lemma map_of_plain_object:
  "map_of (plain_object xs) k = (if k = ''__proto__'' then None else map_of xs k)"
  using map_of_filter_key [of "\<lambda>k. k \<noteq> ''__proto__''" xs k]
  by (simp add: plain_object_def map_of_own_property_order)

lemma set_plain_object: "set (plain_object xs) = {p \<in> set xs. fst p \<noteq> ''__proto__''}"
  by (auto simp: plain_object_def set_own_property_order)

lemma map_of_boatsView:
  "map_of (boatsView now s) k =
     (if k = ''__proto__'' then None
      else map_option (boatView now (latest s) k) (map_of (roster s) k))"
proof -
  have "map_of (map (\<lambda>p. (fst p, f (fst p) (snd p))) m) k = map_option (f k) (map_of m k)"
    for f :: "string \<Rightarrow> BoatRosterEntry \<Rightarrow> BoatView" and m
    by (induction m) auto
  then show ?thesis
    by (simp add: boatsView_def map_of_plain_object)
qed

lemma keys_boatsView:
  "fst ` set (boatsView now s) = fst ` set (roster s) - {''__proto__''}"
proof -
  have "dom (map_of (boatsView now s)) = dom (map_of (roster s)) - {''__proto__''}"
    by (auto simp: map_of_boatsView dom_def split: if_splits)
  then show ?thesis
    by (simp add: dom_map_of_conv_image_fst)
qed

lemma views_of_boatsView:
  assumes "p \<in> set (boatsView now s)"
  shows "\<exists>e. (fst p, e) \<in> set (roster s) \<and> snd p = boatView now (latest s) (fst p) e"
  using assms by (auto simp: boatsView_def set_plain_object)

lemma insert_by_insort_key:
  assumes "\<And>x y. cmp x y \<le> 0 \<longleftrightarrow> key x \<le> key y"
  shows "insert_by cmp x ys = insort_key key x ys"
  by (induction ys) (simp_all add: assms)

lemma sort_by_sort_key:
  assumes "\<And>x y. cmp x y \<le> 0 \<longleftrightarrow> key x \<le> key y"
  shows "sort_by cmp xs = sort_key key xs"
proof -
  have "insert_by cmp = insort_key key"
    using insert_by_insort_key [of cmp key, OF assms] by (intro ext)
  then show ?thesis
    by (simp add: sort_by_def sort_key_def)
qed

lemma view_order_key: "view_order collate a b \<le> 0 \<longleftrightarrow> view_key collate a \<le> view_key collate b"
  by (cases "bv_live a"; cases "bv_live b")
    (auto simp: view_order_def view_key_def localeCompare_def)

lemma boatsViewArray_sort_key:
  "boatsViewArray collate now s = sort_key (view_key collate) (map snd (boatsView now s))"
  by (simp add: boatsViewArray_def object_values_def sort_by_sort_key [OF view_order_key])

lemma boatView_live:
  assumes "LIVE_MS < now"
  shows "bv_live (boatView now l k e) \<longleftrightarrow>
     (\<exists>ls. bv_lastSeen (boatView now l k e) = Some ls \<and> now - ls \<le> 120000)"
  using assms by (auto simp: boatView_def Let_def LIVE_MS_def split: option.splits)

lemma boatView_position:
  "bv_lat (boatView now l k e) = map_option tm_lat (map_get l k)"
  "bv_lng (boatView now l k e) = map_option tm_lon (map_get l k)"
  by (simp_all add: boatView_def Let_def)

lemma array_index_letter: "array_index (CHR ''B'' # k) = None"
  by (simp add: array_index_def is_digit_def)

lemma fleet_view:
  "boatsView 200000 fleet =
     [(''B1'', \<lparr>bv_boatId = ''B1'', bv_boatName = ''Zed'', bv_nation = None, bv_joinedAt = 500,
                bv_live = True, bv_lastSeen = Some 150000, bv_lat = Some 1, bv_lng = Some 2,
                bv_speed = None, bv_heading = None, bv_timestamp = Some 150000\<rparr>),
      (''B2'', \<lparr>bv_boatId = ''B2'', bv_boatName = ''Amy'', bv_nation = None, bv_joinedAt = 600,
                bv_live = False, bv_lastSeen = Some 1000, bv_lat = Some 3, bv_lng = Some 4,
                bv_speed = None, bv_heading = None, bv_timestamp = Some 1000\<rparr>),
      (''B3'', \<lparr>bv_boatId = ''B3'', bv_boatName = ''Bob'', bv_nation = None, bv_joinedAt = 700,
                bv_live = True, bv_lastSeen = Some 190000, bv_lat = Some 5, bv_lng = Some 6,
                bv_speed = None, bv_heading = None, bv_timestamp = Some 190000\<rparr>),
      (''B4'', \<lparr>bv_boatId = ''B4'', bv_boatName = ''Cat'', bv_nation = None, bv_joinedAt = 800,
                bv_live = False, bv_lastSeen = None, bv_lat = None, bv_lng = None,
                bv_speed = None, bv_heading = None, bv_timestamp = None\<rparr>)]"
  by (simp add: boatsView_def plain_object_def own_property_order_def array_index_letter
      fleet_def boatView_def Let_def map_get_def nullish_def LIVE_MS_def)

lemma fleet_array:
  "map (\<lambda>v. (bv_boatName v, bv_live v, bv_lat v, bv_lng v))
       (boatsViewArray (\<lambda>n. n) 200000 fleet) =
     [(''Bob'', True, Some 5, Some 6), (''Zed'', True, Some 1, Some 2),
      (''Amy'', False, Some 3, Some 4), (''Cat'', False, None, None)]"
  unfolding boatsViewArray_def fleet_view
  by (simp add: object_values_def sort_by_def view_order_def localeCompare_def)

lemma odd_ids_keys: "map fst (boatsView now odd_ids) = [''7'', ''B1'']"
  by (simp add: boatsView_def plain_object_def own_property_order_def array_index_def
      is_digit_def digit_value_def odd_ids_def)

lemma safeNum_Number:
  "safeNum B v = (case Number B v of Inl e \<Rightarrow> Inl e | Inr n \<Rightarrow> Inr (finite_part n))"
  by (simp add: safeNum_def Number_def split: option.splits json.splits)

text \<open>
  With the engine's reading of the empty string as 0 and of the array \<^verbatim>\<open>[7]\<close> as 7, both
  values pass \<^verbatim>\<open>safeNum\<close> as these numbers.
\<close>

lemma safeNum_empty_string:
  "StringToNumber B [] = Finite 0 \<Longrightarrow> safeNum B (Some (JString [])) = Inr (Some 0)"
  by (simp add: safeNum_def Number_def finite_part_def)

lemma safeNum_singleton_array:
  "ObjectToNumber B (JArray [JNumber (Finite 7)]) = Inr (Finite 7) \<Longrightarrow>
     safeNum B (Some (JArray [JNumber (Finite 7)])) = Inr (Some 7)"
  by (simp add: safeNum_def Number_def finite_part_def)

lemma update_json_accepted:
  assumes "text_of (b_raceId b) \<noteq> []" and "safeNum B la = Inr lat" and "safeNum B lo = Inr lon"
  shows "update_json B now b la lo s =
     (Inr (fst (update now (Some (b\<lparr>b_lat := lat, b_lon := lon\<rparr>)) s)),
      snd (update now (Some (b\<lparr>b_lat := lat, b_lon := lon\<rparr>)) s))"
  using assms by (simp add: update_json_def Let_def)

text \<open>
  A conversion of \<^verbatim>\<open>lat\<close> or \<^verbatim>\<open>lon\<close> that throws ends the update of a named race with the
  exception, with no event and with the state as \<open>loadOnce\<close> gave it.
\<close>

lemma update_json_throws:
  assumes "text_of (b_raceId b) \<noteq> []"
    and "safeNum B la = Inl e \<or> (\<exists>lat. safeNum B la = Inr lat) \<and> safeNum B lo = Inl e"
  shows "update_json B now b la lo s = (Inl e, [], loadOnce s)"
  using assms by (auto simp: update_json_def)

section \<open>Properties of the replay\<close>

lemma clamp_bounds: "lo \<le> hi \<Longrightarrow> lo \<le> clamp n lo hi \<and> clamp n lo hi \<le> hi"
  by (simp add: clamp_def)

lemma tenth_bounds: "1 / 10 \<le> tenth" "tenth \<le> 10" "0 < tenth"
  by (simp_all add: tenth_def)

lemma double_rounding_fixes:
  assumes "double_rounding fl"
  shows "fl 100 = 100" and "fl 1000 = 1000" and "fl 10000 = 10000"
proof -
  have "fl (of_int n) = of_int n" if "\<bar>n\<bar> \<le> 2 ^ 53" for n :: int
    using assms that by (simp add: double_rounding_def)
  from this [of 100] this [of 1000] this [of 10000]
  show "fl 100 = 100" and "fl 1000 = 1000" and "fl 10000 = 10000"
    by simp_all
qed

lemma rounded_quotient_bounds:
  fixes hz :: rat
  assumes "double_rounding fl" and "0 < hz" and "hz \<le> 10"
  shows "100 \<le> fl (1000 / hz)"
    and "1 / 10 \<le> hz \<Longrightarrow> fl (1000 / hz) \<le> 10000"
    and "1 \<le> hz \<Longrightarrow> fl (1000 / hz) \<le> 1000"
proof -
  have mono: "fl x \<le> fl y" if "x \<le> y" for x y
    using assms(1) that by (simp add: double_rounding_def)
  from assms(2,3) have "100 \<le> 1000 / hz"
    by (simp add: field_simps)
  from mono [OF this] show "100 \<le> fl (1000 / hz)"
    by (simp add: double_rounding_fixes [OF assms(1)])
  show "fl (1000 / hz) \<le> 10000" if "1 / 10 \<le> hz"
  proof -
    from that assms(2) have "1000 / hz \<le> 10000"
      by (simp add: field_simps)
    from mono [OF this] show ?thesis
      by (simp add: double_rounding_fixes [OF assms(1)])
  qed
  show "fl (1000 / hz) \<le> 1000" if "1 \<le> hz"
  proof -
    from that assms(2) have "1000 / hz \<le> 1000"
      by (simp add: field_simps)
    from mono [OF this] show ?thesis
      by (simp add: double_rounding_fixes [OF assms(1)])
  qed
qed

lemma round_step_bounds:
  fixes q :: rat
  assumes "100 \<le> q" and "q \<le> 10000"
  shows "100 \<le> round q" and "round q \<le> 10000"
proof -
  from assms have "round (100 :: rat) \<le> round q" and "round q \<le> round (10000 :: rat)"
    by (simp_all only: round_mono)
  then show "100 \<le> round q" and "round q \<le> 10000"
    by simp_all
qed

lemma double_rounding_grid: "double_rounding grid_rounding"
proof -
  have "grid_rounding x \<le> grid_rounding y" if "x \<le> y" for x y
  proof -
    from that have "round (x * 1024) \<le> round (y * 1024)"
      by (intro round_mono) simp
    then show ?thesis
      by (simp add: grid_rounding_def divide_right_mono)
  qed
  moreover have "grid_rounding (of_int n) = of_int n" for n :: int
  proof -
    have "(of_int n :: rat) * 1024 = of_int (n * 1024)"
      by simp
    then have "round ((of_int n :: rat) * 1024) = n * 1024"
      by (simp only: round_of_int)
    then show ?thesis
      by (simp add: grid_rounding_def)
  qed
  ultimately show ?thesis
    by (simp add: double_rounding_def)
qed

text \<open>
  A parameter that is no number leaves the handler of part 004 with \<^verbatim>\<open>NaN\<close> for its rate
  and for its step.
\<close>

lemma handleReplay4_not_a_number:
  "handleReplay4_safeHz NaN = None" "handleReplay4_stepMs fl NaN = None"
  by (simp_all add: handleReplay4_safeHz_def handleReplay4_stepMs_def)

lemma replay_step_exact: "replay_step (\<lambda>x. x) h = replay_stepMs (replay_hz h)"
  by (simp add: replay_step_def replay_stepMs_def)


lemma scenario_B_rows: "select_track_points scenario_B ''R1'' 0 4000 = scenario_B"
  by (simp add: select_track_points_def scenario_B_def)

lemma scenario_B_groups:
  "group_by_boat scenario_B = [(''B1'', scenario_B)]"
  by (simp add: group_by_boat_def scenario_B_def push_row_def map_has_def map_get_def Let_def)

lemma scenario_B_idx: "initial_idx [(''B1'', scenario_B)] = [(''B1'', 0)]"
  by (simp add: initial_idx_def map_keys_def)

lemma scenario_B_frames:
  "frames_from [(''B1'', scenario_B)] 1000 4000 [(''B1'', 0)] 0 =
     Inr [\<lparr>fr_t = 0, fr_boats = [\<lparr>lb_boatId = ''B1'', lb_name = None, lb_lat = 0, lb_lon = 0,
                                  lb_sog = None, lb_cog = None, lb_t = 0\<rparr>]\<rparr>,
          \<lparr>fr_t = 1000, fr_boats = [\<lparr>lb_boatId = ''B1'', lb_name = None, lb_lat = 1, lb_lon = 1,
                                  lb_sog = None, lb_cog = None, lb_t = 1000\<rparr>]\<rparr>,
          \<lparr>fr_t = 2000, fr_boats = [\<lparr>lb_boatId = ''B1'', lb_name = None, lb_lat = 2, lb_lon = 2,
                                  lb_sog = None, lb_cog = None, lb_t = 2000\<rparr>]\<rparr>,
          \<lparr>fr_t = 3000, fr_boats = [\<lparr>lb_boatId = ''B1'', lb_name = None, lb_lat = 3, lb_lon = 3,
                                  lb_sog = None, lb_cog = None, lb_t = 3000\<rparr>]\<rparr>,
          \<lparr>fr_t = 4000, fr_boats = [\<lparr>lb_boatId = ''B1'', lb_name = None, lb_lat = 4, lb_lon = 4,
                                  lb_sog = None, lb_cog = None, lb_t = 4000\<rparr>]\<rparr>]"
  by (simp add: frames_from.simps advance.simps sample_boat_def at_point_def interp_def
      lerp_def lerp_opt_def clamp_def nullish_def scenario_B_def map_get_def cursor_def Let_def)








































lemma forward_frames_unfold:
  assumes "t \<le> to" and "0 < stepMs"
  shows "forward_frames points stepMs to c m t =
     \<lparr>fr_t = t, fr_boats = map (\<lambda>e. latest_boat (snd e)) (snd (consume points t c m))\<rparr>
       # forward_frames points stepMs to (fst (consume points t c m)) (snd (consume points t c m))
           (t + stepMs)"
  using assms forward_frames.simps [of points stepMs to c m t] by (simp add: Let_def)

lemma forward_frames_end:
  assumes "to < t"
  shows "forward_frames points stepMs to c m t = []"
  using assms forward_frames.simps [of points stepMs to c m t] by simp

lemma lone_point_forward:
  "map (\<lambda>f. (fr_t f, map (\<lambda>b. (lb_boatId b, lb_lat b, lb_lon b)) (fr_boats f)))
     (forward_frames (select_by_time lone_point ''R1'' 0 6000) 1000 6000 0 [] 0) =
     [(0, []), (1000, []), (2000, []), (3000, []), (4000, []),
      (5000, [(''B1'', 7, 8)]), (6000, [(''B1'', 7, 8)])]"
  by (simp add: select_by_time_def lone_point_def forward_frames_unfold forward_frames_end
      consume.simps latest_boat_def)

lemma prune_kept: "prune now boats = filter (\<lambda>e. now - lb_t (snd e) \<le> 120000) boats"
  by (simp add: prune_def ACTIVE_MS_def not_less)

lemma snapshot_sort_key:
  "fst (snapshot collate now boats) =
     sort_key (\<lambda>b. collate (lb_boatId b)) (map snd (prune now boats))"
proof -
  have "localeCompare collate (lb_boatId a) (lb_boatId b) \<le> 0 \<longleftrightarrow>
      collate (lb_boatId a) \<le> collate (lb_boatId b)" for a b :: LiveBoat
    by (auto simp: localeCompare_def)
  then show ?thesis
    by (simp add: snapshot_def Let_def sort_by_sort_key)
qed

lemma unique_rows_insert_or_replace:
  assumes "unique_rows db"
  shows "unique_rows (insert_or_replace p db)"
proof -
  have "set (insert_or_replace p db) = insert p {r \<in> set db. row_key r \<noteq> row_key p}"
    by (auto simp: insert_or_replace_def row_key_def)
  moreover have "inj_on row_key (insert p {r \<in> set db. row_key r \<noteq> row_key p})"
    using assms by (auto simp: unique_rows_def inj_on_def)
  ultimately show ?thesis
    by (simp add: unique_rows_def)
qed

lemma unique_rows_worker_fetch:
  "unique_rows db \<Longrightarrow> unique_rows (snd (worker_fetch now req db))"
  by (cases req)
    (auto simp: worker_fetch_def handle_track_def Let_def unique_rows_insert_or_replace
      split: track_request.splits)

lemma select_track_points_contents:
  assumes "unique_rows db" and "mset db' = mset db"
  shows "select_track_points db' raceId from to = select_track_points db raceId from to"
proof -
  let ?P = "\<lambda>r. tp_raceId r = raceId \<and> from \<le> tp_t r \<and> tp_t r \<le> to"
  let ?key = "\<lambda>r. (tp_boatId r, tp_t r)"
  from assms(2) have "mset (filter ?P db') = mset (filter ?P db)"
    by (metis mset_filter)
  then have m: "mset (filter ?P db') = mset (sort_key ?key (filter ?P db))"
    by simp
  from assms(2) have "set db' = set db"
    by (rule mset_eq_setD)
  with assms(1) have "inj_on ?key (set (filter ?P db'))"
    by (auto simp: unique_rows_def inj_on_def row_key_def)
  from sort_key_inj_key_eq [OF m this] show ?thesis
    by (simp add: select_track_points_def)
qed

lemma handle_replay_contents:
  assumes "unique_rows db" and "mset db' = mset db"
  shows "handle_replay db' q = handle_replay db q"
  by (simp add: handle_replay_def Let_def select_track_points_contents [OF assms])

section \<open>Claims about the race channel\<close>

text \<open>
  C4. Every accepted update on a race channel replaces the cached sample of its boat by the
  sample built from the request, whatever sample was cached before: the time of the new
  sample is not compared with the time of the cached one.
\<close>

theorem update_replaces_cached_sample:
  assumes "text_of (b_raceId b) \<noteq> []" and "text_of (b_boatId b) \<noteq> []"
    and "b_lat b = Some la" and "b_lon b = Some lo"
  shows "fst (update now (Some b) s) = Updated \<and>
     map_get (latest (snd (snd (update now (Some b) s)))) (text_of (b_boatId b)) =
       Some \<lparr>tm_boatId = text_of (b_boatId b),
             tm_lat = la, tm_lon = lo,
             tm_t = (case b_t b of Some x \<Rightarrow> x | None \<Rightarrow> now),
             tm_sog = nullish (b_sog b) (b_speed b),
             tm_cog = nullish (b_cog b) (b_course b),
             tm_heading = b_heading b,
             tm_heel = b_heel b\<rparr>"
  using assms
  by (simp add: update_def Let_def persist_def map_get_def map_of_map_set accepted_check)

text \<open>
  The sample of B1 cached at time 9000 is replaced by a report that carries the older
  time 1000.
\<close>

theorem update_replaces_cached_sample_witness:
  "map_option tm_t (map_get (latest channel_B1) ''B1'') = Some 9000 \<and>
   fst (update 9500 (Some (report ''R1'' ''B1'' 10 20 1000)) channel_B1) = Updated \<and>
   map_get (latest (snd (snd (update 9500 (Some (report ''R1'' ''B1'' 10 20 1000)) channel_B1))))
       ''B1'' =
     Some \<lparr>tm_boatId = ''B1'', tm_lat = 10, tm_lon = 20, tm_t = 1000,
           tm_sog = None, tm_cog = None, tm_heading = None, tm_heel = None\<rparr>"
  using update_replaces_cached_sample [of "report ''R1'' ''B1'' 10 20 1000" 10 20 9500 channel_B1]
  by (simp add: report_fields) (simp add: channel_B1_def map_get_def)

text \<open>
  C7. After every sequence of join and update requests (and restarts of the object) on a
  fresh channel, every boat with a cached sample has a roster entry. The converse fails:
  after a single join the boat is in the roster and has no sample.
\<close>

theorem roster_superset_of_telemetry:
  "set (map_keys (latest (run rs initial))) \<subseteq> set (map_keys (roster (run rs initial))) \<and>
   (\<exists>rs' boatId. boatId \<in> set (map_keys (roster (run rs' initial))) \<and>
                 boatId \<notin> set (map_keys (latest (run rs' initial))))"
proof
  have "roster_covers_telemetry (run rs initial)"
    by (simp add: covers_run covers_initial)
  then show "set (map_keys (latest (run rs initial))) \<subseteq> set (map_keys (roster (run rs initial)))"
    by (simp add: roster_covers_telemetry_def)
next
  let ?rs = "[(1000, PostJoin (Some (registration ''R1'' ''B1'' ''Blue'')))]"
  have "''B1'' \<in> set (map_keys (roster (run ?rs initial))) \<and>
        ''B1'' \<notin> set (map_keys (latest (run ?rs initial)))"
    by (simp add: fetch_def join_def Let_def registration_fields initial_def loadOnce_def
        updateRacesIndex_def persist_def map_get_def map_keys_def)
  then show "\<exists>rs' boatId. boatId \<in> set (map_keys (roster (run rs' initial))) \<and>
                 boatId \<notin> set (map_keys (latest (run rs' initial)))"
    by blast
qed

text \<open>
  C10. The event that an accepted update broadcasts marks the boat live, always. When the
  reported time lies more than 120000 ms before the clock, the view that \<open>boatsView\<close>
  computes for the boat from the state after the update, at the same reading of the clock,
  marks it as not live; for every boatId but \<^verbatim>\<open>__proto__\<close>, that view is the property of
  the boat in the object that \<open>boatsView\<close> returns.
\<close>

theorem update_broadcast_always_live:
  assumes "text_of (b_raceId b) \<noteq> []" and "text_of (b_boatId b) \<noteq> []"
    and "b_lat b = Some la" and "b_lon b = Some lo"
  shows "\<exists>v s'. update now (Some b) s = (Updated, [Update now (text_of (b_boatId b)) v], s') \<and>
           bv_live v \<and>
           (\<forall>t. b_t b = Some t \<and> LIVE_MS < now - t \<longrightarrow>
              (\<exists>e. map_get (roster s') (text_of (b_boatId b)) = Some e \<and>
                   \<not> bv_live (boatView now (latest s') (text_of (b_boatId b)) e)) \<and>
              (text_of (b_boatId b) \<noteq> ''__proto__'' \<longrightarrow>
                 (\<exists>v'. map_of (boatsView now s') (text_of (b_boatId b)) = Some v' \<and>
                       \<not> bv_live v')))"
  using assms
  by (auto simp: update_def Let_def accepted_check persist_def map_of_boatsView map_get_def
      map_of_map_set boatView_def nullish_def)

text \<open>
  A report whose time lies 299 seconds before the clock: the event says live, the view
  built from the resulting state says not live.
\<close>

theorem update_broadcast_always_live_witness:
  "\<exists>v s'. update 300000 (Some (report ''R1'' ''B1'' 10 20 1000)) channel_B1 =
            (Updated, [Update 300000 ''B1'' v], s') \<and>
          bv_live v \<and>
          (\<exists>v'. map_of (boatsView 300000 s') ''B1'' = Some v' \<and> \<not> bv_live v')"
  using update_broadcast_always_live [of "report ''R1'' ''B1'' 10 20 1000" 10 20 300000 channel_B1]
  by (fastforce simp: report_fields LIVE_MS_def)

text \<open>
  C2, the claim as stated fails: a report with latitude 100 and longitude 200, both finite and
  both out of range, is accepted and cached.
\<close>

theorem update_accepts_out_of_range_counterexample:
  "fst (update 9500 (Some (report ''R1'' ''B1'' 100 200 1000)) initial) = Updated \<and>
   map_get (latest (snd (snd (update 9500 (Some (report ''R1'' ''B1'' 100 200 1000)) initial))))
       ''B1'' =
     Some \<lparr>tm_boatId = ''B1'', tm_lat = 100, tm_lon = 200, tm_t = 1000,
           tm_sog = None, tm_cog = None, tm_heading = None, tm_heel = None\<rparr>"
  by (simp add: update_def Let_def report_fields accepted_check persist_def map_get_def
      map_of_map_set)

text \<open>
  C2, amended. Take an update of the race channel, or an authorised track request of the
  worker with the track log, whose body parses and on whose fields no conversion throws;
  \<open>lat\<close> and \<open>lon\<close> are its \<^verbatim>\<open>lat\<close> and \<^verbatim>\<open>lon\<close> converted to numbers, \<open>None\<close> when the
  number is not finite. The update fails with a 400 response, broadcasts
  nothing and leaves the state as \<open>loadOnce\<close> gave it (unchanged, for a channel that has
  loaded its storage before) when the boatId is empty or \<open>lat\<close> or \<open>lon\<close> is \<open>None\<close>, and is
  accepted otherwise when it names a race: the channel tests no range, and it tests the
  converted value, so that \<^verbatim>\<open>null\<close> and \<^verbatim>\<open>false\<close> are read as 0 and \<^verbatim>\<open>true\<close> as 1, a string
  as the engine reads it, and only an absent field or a value converted to \<^verbatim>\<open>NaN\<close> or an
  infinity is refused. The track request fails with a 400 response and writes nothing when
  its raceId or boatId is empty, or \<open>lat\<close> or \<open>lon\<close> is \<open>None\<close> or lies outside [-90, 90] or
  [-180, 180]; otherwise it is accepted with its row written, or answered 500 with nothing
  written when the write to the table fails. A track request whose body is \<^verbatim>\<open>null\<close>, or
  on which a conversion throws, ends with the exception and writes nothing.
\<close>

theorem update_validation:
  assumes "safeNum B la = Inr lat" and "safeNum B lo = Inr lon"
  shows "(if text_of (b_boatId b) = [] \<or> lat = None \<or> lon = None
          then \<exists>msg. update_json B now b la lo s = (Inr (BadRequest msg), [], loadOnce s)
          else fst (update_json B now b la lo s) =
                 Inr (if text_of (b_raceId b) = [] then BadRequest ''Missing raceId'' else Updated)) \<and>
         safeNum B None = Inr None \<and>
         safeNum B (Some JNull) = Inr (Some 0) \<and>
         safeNum B (Some (JBool v)) = Inr (Some (if v then 1 else 0)) \<and>
         safeNum B (Some (JNumber n)) = Inr (finite_part n) \<and>
         safeNum B (Some (JString str)) = Inr (finite_part (StringToNumber B str)) \<and>
         (if k_raceId p = [] \<or> k_boatId p = [] \<or>
             (case lat of None \<Rightarrow> True | Some x \<Rightarrow> 90 < \<bar>x\<bar>) \<or>
             (case lon of None \<Rightarrow> True | Some y \<Rightarrow> 180 < \<bar>y\<bar>)
          then \<exists>msg. handle_track now True written (track_fields B p la lo) db = (Bad msg, db)
          else handle_track now True written (track_fields B p la lo) db =
                 (if written
                  then (TrackOk,
                        insert_or_replace
                          \<lparr>tp_raceId = k_raceId p, tp_boatId = k_boatId p,
                           tp_t = (case k_t p of Some x \<Rightarrow> of_int \<lfloor>x\<rfloor> | None \<Rightarrow> now),
                           tp_lat = the lat, tp_lon = the lon,
                           tp_sog = k_sog p, tp_cog = k_cog p,
                           tp_name = map_option (take 80) (k_name p)\<rparr> db)
                  else (Failed ''D1 write failed'', db))) \<and>
         handle_track now True written Throws db = (Uncaught, db)"
proof (intro conjI)
  show "if text_of (b_boatId b) = [] \<or> lat = None \<or> lon = None
          then \<exists>msg. update_json B now b la lo s = (Inr (BadRequest msg), [], loadOnce s)
          else fst (update_json B now b la lo s) =
                 Inr (if text_of (b_raceId b) = [] then BadRequest ''Missing raceId'' else Updated)"
    using assms
    by (auto simp: update_json_def update_def Let_def mustHaveTelemetryFields_def)
  show "safeNum B None = Inr None"
    and "safeNum B (Some JNull) = Inr (Some 0)"
    and "safeNum B (Some (JBool v)) = Inr (Some (if v then 1 else 0))"
    and "safeNum B (Some (JNumber n)) = Inr (finite_part n)"
    and "safeNum B (Some (JString str)) = Inr (finite_part (StringToNumber B str))"
    by (simp_all add: safeNum_def Number_def finite_part_def)
  from assms obtain x y where
    n: "Number B la = Inr x" "finite_part x = lat" "Number B lo = Inr y" "finite_part y = lon"
    by (auto simp: safeNum_Number split: sum.splits)
  show "if k_raceId p = [] \<or> k_boatId p = [] \<or>
             (case lat of None \<Rightarrow> True | Some x \<Rightarrow> 90 < \<bar>x\<bar>) \<or>
             (case lon of None \<Rightarrow> True | Some y \<Rightarrow> 180 < \<bar>y\<bar>)
          then \<exists>msg. handle_track now True written (track_fields B p la lo) db = (Bad msg, db)
          else handle_track now True written (track_fields B p la lo) db =
                 (if written
                  then (TrackOk,
                        insert_or_replace
                          \<lparr>tp_raceId = k_raceId p, tp_boatId = k_boatId p,
                           tp_t = (case k_t p of Some x \<Rightarrow> of_int \<lfloor>x\<rfloor> | None \<Rightarrow> now),
                           tp_lat = the lat, tp_lon = the lon,
                           tp_sog = k_sog p, tp_cog = k_cog p,
                           tp_name = map_option (take 80) (k_name p)\<rparr> db)
                  else (Failed ''D1 write failed'', db))"
    using n by (auto simp: handle_track_def track_fields_def Let_def split: option.splits)
  show "handle_track now True written Throws db = (Uncaught, db)"
    by (simp add: handle_track_def)
qed

text \<open>
  Whatever the engine's conversions of strings and objects: a report with \<^verbatim>\<open>lat: null\<close> and
  \<^verbatim>\<open>lon: true\<close> is accepted by the channel; a report without \<^verbatim>\<open>lat\<close> is rejected and
  leaves the channel as it was; a report at latitude 100 and longitude 200 is accepted by
  the channel and rejected by POST /track, which accepts the position (10, 20).
\<close>

theorem update_validation_witness:
  "\<forall>B. fst (update_json B 9500 (registration ''R1'' ''B1'' ''Blue'') (Some JNull)
               (Some (JBool True)) channel_B1) = Inr Updated \<and>
        (\<exists>msg. update_json B 9500 (registration ''R1'' ''B1'' ''Blue'') None
                  (Some (JNumber (Finite 2))) channel_B1
                = (Inr (BadRequest msg), [], channel_B1)) \<and>
        fst (update_json B 9500 (registration ''R1'' ''B1'' ''Blue'') (Some (JNumber (Finite 100)))
               (Some (JNumber (Finite 200))) channel_B1) = Inr Updated \<and>
        (\<exists>msg. handle_track 9500 True True
                  (track_fields B (track_report ''R1'' ''B1'' 0 0) (Some (JNumber (Finite 100)))
                     (Some (JNumber (Finite 200)))) []
                = (Bad msg, [])) \<and>
        fst (handle_track 9500 True True
               (track_fields B (track_report ''R1'' ''B1'' 0 0) (Some (JNumber (Finite 10)))
                  (Some (JNumber (Finite 20)))) []) = TrackOk"
proof
  fix B
  have l: "loadOnce channel_B1 = channel_B1"
    by (simp add: loadOnce_loaded channel_B1_def)
  have c: "safeNum B (Some JNull) = Inr (Some 0)" "safeNum B (Some (JBool True)) = Inr (Some 1)"
    "safeNum B None = Inr None" "safeNum B (Some (JNumber (Finite r))) = Inr (Some r)" for r
    by (simp_all add: safeNum_def Number_def finite_part_def)
  have t: "k_raceId (track_report ''R1'' ''B1'' 0 0) = ''R1''"
    "k_boatId (track_report ''R1'' ''B1'' 0 0) = ''B1''"
    by (simp_all add: track_report_def)
  show "fst (update_json B 9500 (registration ''R1'' ''B1'' ''Blue'') (Some JNull)
               (Some (JBool True)) channel_B1) = Inr Updated \<and>
        (\<exists>msg. update_json B 9500 (registration ''R1'' ''B1'' ''Blue'') None
                  (Some (JNumber (Finite 2))) channel_B1
                = (Inr (BadRequest msg), [], channel_B1)) \<and>
        fst (update_json B 9500 (registration ''R1'' ''B1'' ''Blue'') (Some (JNumber (Finite 100)))
               (Some (JNumber (Finite 200))) channel_B1) = Inr Updated \<and>
        (\<exists>msg. handle_track 9500 True True
                  (track_fields B (track_report ''R1'' ''B1'' 0 0) (Some (JNumber (Finite 100)))
                     (Some (JNumber (Finite 200)))) []
                = (Bad msg, [])) \<and>
        fst (handle_track 9500 True True
               (track_fields B (track_report ''R1'' ''B1'' 0 0) (Some (JNumber (Finite 10)))
                  (Some (JNumber (Finite 20)))) []) = TrackOk"
    using update_validation [OF c(1) c(2), where b = "registration ''R1'' ''B1'' ''Blue''"
          and now = 9500 and s = channel_B1]
      update_validation [OF c(3) c(4) [of 2], where b = "registration ''R1'' ''B1'' ''Blue''"
          and now = 9500 and s = channel_B1]
      update_validation [OF c(4) [of 100] c(4) [of 200],
        where b = "registration ''R1'' ''B1'' ''Blue''" and now = 9500 and s = channel_B1
          and p = "track_report ''R1'' ''B1'' 0 0" and written = True and db = "[]"]
      update_validation [OF c(4) [of 10] c(4) [of 20],
        where now = 9500 and p = "track_report ''R1'' ''B1'' 0 0" and written = True
          and db = "[]"]
    by (auto simp: registration_fields l t)
qed

text \<open>
  C6. Every join with a boatId leaves the telemetry map as it was and keeps the \<open>joinedAt\<close>
  of an entry that existed. When the request names its race, as every join that the gateway
  forwards to a channel does, the call answers with the size of the roster after it: one
  more than before for a new boat, the same for a known one.
\<close>

theorem join_frame:
  assumes "text_of (b_boatId b) \<noteq> []"
  shows "latest (snd (snd (join now (Some b) s))) = latest (loadOnce s) \<and>
         (\<forall>e. map_get (roster (loadOnce s)) (text_of (b_boatId b)) = Some e \<longrightarrow>
              (\<exists>e'. map_get (roster (snd (snd (join now (Some b) s)))) (text_of (b_boatId b))
                      = Some e' \<and>
                    re_joinedAt e' = re_joinedAt e)) \<and>
         (text_of (b_raceId b) \<noteq> [] \<longrightarrow>
            fst (join now (Some b) s) =
              Joined (text_of (b_boatId b)) (length (roster (snd (snd (join now (Some b) s))))) \<and>
            length (roster (snd (snd (join now (Some b) s)))) =
              (if map_has (roster (loadOnce s)) (text_of (b_boatId b))
               then length (roster (loadOnce s)) else Suc (length (roster (loadOnce s)))))"
  using assms
  by (simp add: join_def Let_def persist_fields updateRacesIndex_fields map_get_def map_has_def
      map_of_map_set length_map_set map_of_eq_None_iff)

text \<open>
  Boat B1, joined at time 500, joins again at time 9999 under another name: the roster
  still has one entry, joined at 500, and the cached sample stays.
\<close>

theorem join_frame_witness:
  "fst (join 9999 (Some (registration ''R1'' ''B1'' ''Azure'')) channel_B1) = Joined ''B1'' 1 \<and>
   latest (snd (snd (join 9999 (Some (registration ''R1'' ''B1'' ''Azure'')) channel_B1)))
     = latest channel_B1 \<and>
   map_option re_joinedAt (map_get (roster channel_B1) ''B1'') = Some 500 \<and>
   (\<exists>e'. map_get (roster (snd (snd (join 9999 (Some (registration ''R1'' ''B1'' ''Azure''))
             channel_B1)))) ''B1'' = Some e' \<and> re_joinedAt e' = 500)"
proof -
  have l: "loadOnce channel_B1 = channel_B1"
    by (simp add: loadOnce_loaded channel_B1_def)
  have e: "map_get (roster channel_B1) ''B1'' =
      Some \<lparr>re_boatId = ''B1'', re_boatName = ''Blue'', re_nation = None,
            re_joinedAt = 500, re_lastSeen = Some 9000\<rparr>"
    by (simp add: channel_B1_def map_get_def)
  have h: "map_has (roster channel_B1) ''B1''" "length (roster channel_B1) = 1"
    by (simp_all add: channel_B1_def map_has_def)
  show ?thesis
    using join_frame [of "registration ''R1'' ''B1'' ''Azure''" 9999 channel_B1] l e h
    by (simp add: registration_fields)
qed

text \<open>
  C5, the claim as stated fails on the object of the worker with the track log: a boat
  whose last point is at time 1000 is reported by no snapshot at time 200000, and is gone
  from the object after it.
\<close>

theorem snapshot_drops_stale_counterexample:
  "snapshot (\<lambda>n. n) 200000 old_boat = ([], [])"
  by (simp add: snapshot_def prune_def old_boat_def ACTIVE_MS_def sort_by_def)

text \<open>
  C5, amended. In the race channel with a roster, with the clock past its first two
  minutes, a view marks a boat live exactly when its last report is at most 120000 ms old.
  Every roster entry whose boatId is not \<^verbatim>\<open>__proto__\<close> has its view in the object of
  \<open>boatsView\<close> under its boatId, live or not, and the object has no other property; the
  view carries the latitude and longitude of the cached sample. The array of GET /boats
  holds the views of the object, live boats first and, among boats of the same liveness, in
  the order of the display names. The object of the worker with the track log marks no
  boat: its snapshot keeps exactly the boats whose last point is at most 120000 ms old, in
  the order of their ids, and drops the others from the object.
\<close>

theorem views_live_and_sorted:
  assumes "LIVE_MS < now"
  shows "(\<forall>k. k \<noteq> ''__proto__'' \<longrightarrow>
            map_of (boatsView now s) k =
              map_option (boatView now (latest s) k) (map_of (roster s) k)) \<and>
    fst ` set (boatsView now s) = fst ` set (roster s) - {''__proto__''} \<and>
    (\<forall>p \<in> set (boatsView now s).
       (bv_live (snd p) \<longleftrightarrow> (\<exists>ls. bv_lastSeen (snd p) = Some ls \<and> now - ls \<le> 120000)) \<and>
       bv_lat (snd p) = map_option tm_lat (map_get (latest s) (fst p)) \<and>
       bv_lng (snd p) = map_option tm_lon (map_get (latest s) (fst p))) \<and>
    mset (boatsViewArray collate now s) = mset (map snd (boatsView now s)) \<and>
    sorted_wrt (\<lambda>a b. (bv_live b \<longrightarrow> bv_live a) \<and>
                      (bv_live a = bv_live b \<longrightarrow>
                         collate (bv_boatName a) \<le> collate (bv_boatName b)))
      (boatsViewArray collate now s) \<and>
    snd (snapshot collate now boats) = filter (\<lambda>e. now - lb_t (snd e) \<le> 120000) boats \<and>
    mset (fst (snapshot collate now boats)) =
      mset (map snd (filter (\<lambda>e. now - lb_t (snd e) \<le> 120000) boats)) \<and>
    sorted_wrt (\<lambda>a b. collate (lb_boatId a) \<le> collate (lb_boatId b))
      (fst (snapshot collate now boats))"
proof (intro conjI)
  show "\<forall>k. k \<noteq> ''__proto__'' \<longrightarrow>
            map_of (boatsView now s) k =
              map_option (boatView now (latest s) k) (map_of (roster s) k)"
    by (simp add: map_of_boatsView)
  show "fst ` set (boatsView now s) = fst ` set (roster s) - {''__proto__''}"
    by (rule keys_boatsView)
  show "\<forall>p \<in> set (boatsView now s).
       (bv_live (snd p) \<longleftrightarrow> (\<exists>ls. bv_lastSeen (snd p) = Some ls \<and> now - ls \<le> 120000)) \<and>
       bv_lat (snd p) = map_option tm_lat (map_get (latest s) (fst p)) \<and>
       bv_lng (snd p) = map_option tm_lon (map_get (latest s) (fst p))"
  proof
    fix p
    assume "p \<in> set (boatsView now s)"
    then obtain e where "snd p = boatView now (latest s) (fst p) e"
      using views_of_boatsView by blast
    then show "(bv_live (snd p) \<longleftrightarrow> (\<exists>ls. bv_lastSeen (snd p) = Some ls \<and> now - ls \<le> 120000)) \<and>
       bv_lat (snd p) = map_option tm_lat (map_get (latest s) (fst p)) \<and>
       bv_lng (snd p) = map_option tm_lon (map_get (latest s) (fst p))"
      using boatView_live [OF assms, of "latest s" "fst p" e] by (simp add: boatView_position)
  qed
  show "mset (boatsViewArray collate now s) = mset (map snd (boatsView now s))"
    by (simp add: boatsViewArray_sort_key)
  have "sorted (map (view_key collate) (boatsViewArray collate now s))"
    by (simp add: boatsViewArray_sort_key)
  then have "sorted_wrt (\<lambda>a b. view_key collate a \<le> view_key collate b)
      (boatsViewArray collate now s)"
    by (simp add: sorted_map)
  then show "sorted_wrt (\<lambda>a b. (bv_live b \<longrightarrow> bv_live a) \<and>
                      (bv_live a = bv_live b \<longrightarrow>
                         collate (bv_boatName a) \<le> collate (bv_boatName b)))
      (boatsViewArray collate now s)"
    by (rule sorted_wrt_mono_rel [rotated]) (auto simp: view_key_def)
  show "snd (snapshot collate now boats) = filter (\<lambda>e. now - lb_t (snd e) \<le> 120000) boats"
    by (simp add: snapshot_def Let_def prune_kept)
  show "mset (fst (snapshot collate now boats)) =
      mset (map snd (filter (\<lambda>e. now - lb_t (snd e) \<le> 120000) boats))"
    by (simp add: snapshot_sort_key prune_kept)
  have "sorted (map (\<lambda>b. collate (lb_boatId b)) (fst (snapshot collate now boats)))"
    by (simp add: snapshot_sort_key)
  then show "sorted_wrt (\<lambda>a b. collate (lb_boatId a) \<le> collate (lb_boatId b))
      (fst (snapshot collate now boats))"
    by (simp add: sorted_map)
qed

text \<open>
  At time 200000 the fleet is listed as Bob and Zed (live), then Amy (stale, with her last
  position) and Cat (never seen). Of the boats B1, 7 and \<^verbatim>\<open>__proto__\<close>, the object lists 7
  and B1.
\<close>

theorem views_live_and_sorted_witness:
  "LIVE_MS < 200000 \<and>
   map (\<lambda>v. (bv_boatName v, bv_live v, bv_lat v, bv_lng v))
       (boatsViewArray (\<lambda>n. n) 200000 fleet) =
     [(''Bob'', True, Some 5, Some 6), (''Zed'', True, Some 1, Some 2),
      (''Amy'', False, Some 3, Some 4), (''Cat'', False, None, None)] \<and>
   mset (boatsViewArray (\<lambda>n. n) 200000 fleet) = mset (map snd (boatsView 200000 fleet)) \<and>
   fst ` set (boatsView 200000 fleet) = {''B1'', ''B2'', ''B3'', ''B4''} \<and>
   map_option bv_live (map_of (boatsView 200000 fleet) ''B2'') = Some False \<and>
   map fst (boatsView 200000 odd_ids) = [''7'', ''B1''] \<and>
   snd (snapshot (\<lambda>n. n) 200000 old_boat) = []"
proof -
  have w: "LIVE_MS < 200000"
    by (simp add: LIVE_MS_def)
  have r: "fst ` set (roster fleet) - {''__proto__''} = {''B1'', ''B2'', ''B3'', ''B4''}"
    by (auto simp: fleet_def)
  have b: "map_option bv_live
      (map_option (boatView 200000 (latest fleet) ''B2'') (map_of (roster fleet) ''B2'')) = Some False"
    by (simp add: fleet_def boatView_def Let_def nullish_def LIVE_MS_def)
  have o: "filter (\<lambda>e. 200000 - lb_t (snd e) \<le> 120000) old_boat = []"
    by (simp add: old_boat_def)
  from views_live_and_sorted [OF w, of fleet "\<lambda>n. n" old_boat]
  have "map_of (boatsView 200000 fleet) ''B2'' =
          map_option (boatView 200000 (latest fleet) ''B2'') (map_of (roster fleet) ''B2'')"
    and "fst ` set (boatsView 200000 fleet) = fst ` set (roster fleet) - {''__proto__''}"
    and "mset (boatsViewArray (\<lambda>n. n) 200000 fleet) = mset (map snd (boatsView 200000 fleet))"
    and "snd (snapshot (\<lambda>n. n) 200000 old_boat) = filter (\<lambda>e. 200000 - lb_t (snd e) \<le> 120000) old_boat"
    by simp_all
  with w r b o fleet_array odd_ids_keys show ?thesis
    by simp
qed

section \<open>Claims about the replay\<close>

text \<open>
  C1, the claim as stated fails on the handler that interpolates: a request with hz = 0.5 is
  clamped to hz = 1 and stepped by 1000 ms, where the claimed rule gives 2000 ms; a request
  with hz = 1.5 is stepped by \<open>\<lfloor>1000 / 1.5\<rfloor> = 666\<close> ms, where rounding gives 667 ms.
\<close>

theorem replay_step_counterexample:
  "replay_hz (Some (1 / 2)) = 1 \<and>
   replay_stepMs (replay_hz (Some (1 / 2))) = 1000 \<and>
   max 50 (round (1000 / (1 / 2) :: rat)) = 2000 \<and>
   replay_hz (Some (3 / 2)) = 3 / 2 \<and>
   replay_stepMs (replay_hz (Some (3 / 2))) = 666 \<and>
   max 50 (round (1000 / (3 / 2) :: rat)) = 667"
  by (simp add: replay_hz_def clamp_def replay_stepMs_def round_def floor_eq_iff)

text \<open>
  C1, amended. Let the quotient 1000 / hz be rounded to a double. The forward-fill handler
  of \<^verbatim>\<open>unnamed/part_001\<close> clamps hz to [0.1, 10] and steps by the quotient rounded to an
  integer, between 100 and 10000 ms, so that its floor of 50 ms never applies. The
  forward-fill handler of \<^verbatim>\<open>unnamed/part_004\<close> does the same, without the floor, whenever
  its hz parameter is a number, finite or infinite, and not \<^verbatim>\<open>NaN\<close>. The interpolating
  handler of \<^verbatim>\<open>unnamed/part_003\<close> clamps hz to [1, 10] and steps by the integer part of the
  quotient, between 100 and 1000 ms.
\<close>

theorem replay_step_ranges:
  assumes "double_rounding fl"
  shows "(tenth \<le> handleReplay1_hz h \<and> handleReplay1_hz h \<le> 10 \<and>
          handleReplay1_stepMs fl h = round (fl (1000 / handleReplay1_hz h)) \<and>
          100 \<le> handleReplay1_stepMs fl h \<and> handleReplay1_stepMs fl h \<le> 10000) \<and>
         (hz \<noteq> NaN \<longrightarrow>
            (\<exists>safeHz. handleReplay4_safeHz hz = Some safeHz \<and> tenth \<le> safeHz \<and> safeHz \<le> 10 \<and>
               handleReplay4_stepMs fl hz = Some (round (fl (1000 / safeHz))) \<and>
               100 \<le> round (fl (1000 / safeHz)) \<and> round (fl (1000 / safeHz)) \<le> 10000)) \<and>
         (1 \<le> replay_hz h \<and> replay_hz h \<le> 10 \<and>
          replay_step fl h = \<lfloor>fl (1000 / replay_hz h)\<rfloor> \<and>
          100 \<le> replay_step fl h \<and> replay_step fl h \<le> 1000)"
proof (intro conjI impI)
  have step: "100 \<le> round (fl (1000 / x))" "round (fl (1000 / x)) \<le> 10000"
    if "tenth \<le> x" and "x \<le> 10" for x
  proof -
    from that tenth_bounds have "0 < x" and "1 / 10 \<le> x"
      by simp_all
    from rounded_quotient_bounds(1,2) [OF assms this(1) that(2)] this(2)
    have "100 \<le> fl (1000 / x)" and "fl (1000 / x) \<le> 10000"
      by simp_all
    then show "100 \<le> round (fl (1000 / x))" "round (fl (1000 / x)) \<le> 10000"
      by (rule round_step_bounds)+
  qed
  show h1: "tenth \<le> handleReplay1_hz h" "handleReplay1_hz h \<le> 10"
    using tenth_bounds by (simp_all add: handleReplay1_hz_def)
  from step [OF h1]
  show "handleReplay1_stepMs fl h = round (fl (1000 / handleReplay1_hz h))"
    and "100 \<le> handleReplay1_stepMs fl h" and "handleReplay1_stepMs fl h \<le> 10000"
    by (simp_all add: handleReplay1_stepMs_def)
  show "\<exists>safeHz. handleReplay4_safeHz hz = Some safeHz \<and> tenth \<le> safeHz \<and> safeHz \<le> 10 \<and>
               handleReplay4_stepMs fl hz = Some (round (fl (1000 / safeHz))) \<and>
               100 \<le> round (fl (1000 / safeHz)) \<and> round (fl (1000 / safeHz)) \<le> 10000"
    if "hz \<noteq> NaN"
  proof -
    from that tenth_bounds obtain x where
      x: "handleReplay4_safeHz hz = Some x" "tenth \<le> x" "x \<le> 10"
      by (cases hz) (auto simp: handleReplay4_safeHz_def clamp_def)
    with step [OF x(2,3)] show ?thesis
      by (simp add: handleReplay4_stepMs_def)
  qed
  show h3: "1 \<le> replay_hz h" "replay_hz h \<le> 10"
    by (simp_all add: replay_hz_def clamp_def)
  then have "0 < replay_hz h"
    by simp
  from rounded_quotient_bounds(1,3) [OF assms this h3(2)] h3(1)
  have "100 \<le> fl (1000 / replay_hz h)" and "fl (1000 / replay_hz h) \<le> 1000"
    by simp_all
  then show "100 \<le> replay_step fl h" and "replay_step fl h \<le> 1000"
    by (simp_all add: replay_step_def le_floor_iff floor_le_iff)
  show "replay_step fl h = \<lfloor>fl (1000 / replay_hz h)\<rfloor>"
    by (simp add: replay_step_def)
qed

text \<open>
  With the quotient rounded to the nearest multiple of \<open>1 / 1024\<close>: at hz = 3 the three
  handlers step by 333 ms; at hz = 0.05 the forward-fill handler of part 004 clamps to the
  double 0.1 and steps by 10000 ms, and it clamps an infinite hz to 10.
\<close>

theorem replay_step_ranges_witness:
  "double_rounding grid_rounding \<and>
   handleReplay1_hz (Some 3) = 3 \<and> handleReplay1_stepMs grid_rounding (Some 3) = 333 \<and>
   handleReplay4_stepMs grid_rounding (Finite 3) = Some 333 \<and>
   replay_step grid_rounding (Some 3) = 333 \<and>
   handleReplay4_safeHz (Finite (1 / 20)) = Some tenth \<and>
   handleReplay4_stepMs grid_rounding (Finite (1 / 20)) = Some 10000 \<and>
   handleReplay4_safeHz PosInfinity = Some 10 \<and>
   handleReplay4_stepMs grid_rounding PosInfinity = Some 100"
proof -
  have r: "round ((1000 / 3 :: rat) * 1024) = 341333" "round (1000 / tenth * 1024) = 10240000"
    "round ((1000 / 10 :: rat) * 1024) = 102400"
    by (simp_all add: tenth_def round_def floor_eq_iff)
  have g: "grid_rounding (1000 / 3) = 341333 / 1024" "grid_rounding (1000 / tenth) = 10000"
    "grid_rounding (1000 / 10) = 100"
    unfolding grid_rounding_def r by simp_all
  have q: "round (grid_rounding (1000 / 3)) = 333" "\<lfloor>grid_rounding (1000 / 3)\<rfloor> = 333"
    "round (grid_rounding (1000 / tenth)) = 10000" "round (grid_rounding (1000 / 10)) = 100"
    unfolding g by (simp_all add: round_def floor_eq_iff)
  have c: "handleReplay1_hz (Some 3) = 3" "replay_hz (Some 3) = 3"
    "handleReplay4_safeHz (Finite 3) = Some 3" "handleReplay4_safeHz (Finite (1 / 20)) = Some tenth"
    "handleReplay4_safeHz PosInfinity = Some 10"
    by (simp_all add: handleReplay1_hz_def replay_hz_def handleReplay4_safeHz_def clamp_def
        tenth_def)
  have n: "Finite 3 \<noteq> NaN" "Finite (1 / 20) \<noteq> NaN" "PosInfinity \<noteq> NaN"
    by simp_all
  from replay_step_ranges [OF double_rounding_grid, of "Some 3" "Finite 3"] n(1)
  have "handleReplay1_stepMs grid_rounding (Some 3) = round (grid_rounding (1000 / 3))"
    and "handleReplay4_stepMs grid_rounding (Finite 3) = Some (round (grid_rounding (1000 / 3)))"
    and "replay_step grid_rounding (Some 3) = \<lfloor>grid_rounding (1000 / 3)\<rfloor>"
    unfolding c by (simp_all only: option.inject simp_thms ex_simps)
  moreover from replay_step_ranges [OF double_rounding_grid, of "Some 3" "Finite (1 / 20)"] n(2)
  have "handleReplay4_stepMs grid_rounding (Finite (1 / 20)) =
      Some (round (grid_rounding (1000 / tenth)))"
    unfolding c by (simp only: option.inject simp_thms ex_simps)
  moreover from replay_step_ranges [OF double_rounding_grid, of "Some 3" PosInfinity] n(3)
  have "handleReplay4_stepMs grid_rounding PosInfinity = Some (round (grid_rounding (1000 / 10)))"
    unfolding c by (simp only: option.inject simp_thms ex_simps)
  ultimately show ?thesis
    unfolding q using double_rounding_grid c by simp
qed

text \<open>
  C8. Scenario B: with the points (t = 0, lat = 0, lon = 0) and (t = 4000, lat = 4, lon = 4)
  of boat B1, the replay from 0 to 4000 at 1 Hz steps by 1000 ms and its frame at t = 2000
  has B1 at lat = 2, lon = 2.
\<close>

theorem scenario_B_midpoint:
  "\<exists>res. handle_replay scenario_B (replay_request ''R1'' 0 4000 1) = ReplayOk res \<and>
         rr_stepMs res = 1000 \<and>
         map fr_t (rr_frames res) = [0, 1000, 2000, 3000, 4000] \<and>
         rr_frames res ! 2 =
           \<lparr>fr_t = 2000,
            fr_boats = [\<lparr>lb_boatId = ''B1'', lb_name = None, lb_lat = 2, lb_lon = 2,
                         lb_sog = None, lb_cog = None, lb_t = 2000\<rparr>]\<rparr>"
  by (simp add: handle_replay_def replay_request_def text_of_def maxWindowMs_def replay_hz_def
      clamp_def replay_stepMs_def scenario_B_rows scenario_B_groups scenario_B_idx
      scenario_B_frames Let_def)

text \<open>
  C9. A replay request leaves the track log as it is, and the same request on the log it
  leaves, at any reading of the clock, has the same response: the same frames with the same
  boats in the same order. The response depends on the rows of the log only, not on the
  order in which the log keeps them, as long as no two rows share race, boat and time.
\<close>

theorem replay_twice_same_frames:
  "snd (worker_fetch now (Replay q) db) = db \<and>
   worker_fetch now' (Replay q) (snd (worker_fetch now (Replay q) db)) =
     worker_fetch now (Replay q) db \<and>
   (unique_rows db \<and> mset db' = mset db \<longrightarrow>
      fst (worker_fetch now' (Replay q) db') = fst (worker_fetch now (Replay q) db))"
  by (simp add: worker_fetch_def handle_replay_contents)

text \<open>Scenario B with the two rows of the log in the other order.\<close>

theorem replay_twice_same_frames_witness:
  "unique_rows scenario_B \<and> mset (rev scenario_B) = mset scenario_B \<and>
   rev scenario_B \<noteq> scenario_B \<and>
   fst (worker_fetch 5 (Replay (replay_request ''R1'' 0 4000 1)) (rev scenario_B)) =
     fst (worker_fetch 0 (Replay (replay_request ''R1'' 0 4000 1)) scenario_B)"
proof -
  have u: "unique_rows scenario_B"
    by (simp add: unique_rows_def scenario_B_def row_key_def)
  have d: "rev scenario_B \<noteq> scenario_B"
    by (simp add: scenario_B_def)
  show ?thesis
    using replay_twice_same_frames [of 0 "replay_request ''R1'' 0 4000 1" scenario_B 5
        "rev scenario_B"] u d
    by simp
qed




end
